theory Spec2Isabelle
  imports Complex_Main
begin

section \<open>Python values shared by the modules\<close>

text \<open>
  Python floats are modelled as real numbers: the arithmetic of the source is read as
  exact arithmetic, so rounding error, overflow, infinities and NaN are outside the model.
  A division by a zero float raises \<open>ZeroDivisionError\<close> in Python; every division of
  the source whose divisor can be zero has that branch written out.
\<close>

datatype py_error = ZeroDivisionError

text \<open>
  \<open>round(x)\<close> and \<open>round(x, n)\<close> of Python round half to even. \<open>py_round x\<close> is the
  integer \<open>round(x)\<close>; \<open>py_round_nd x n\<close> is \<open>round(x, n)\<close> for \<open>n \<ge> 0\<close> decimals.
\<close>

definition py_round :: "real \<Rightarrow> int" where
  "py_round x =
     (let f = \<lfloor>x\<rfloor>; d = x - of_int f
      in if d < 1 / 2 then f
         else if 1 / 2 < d then f + 1
         else if even f then f else f + 1)"

definition py_round_nd :: "real \<Rightarrow> nat \<Rightarrow> real" where
  "py_round_nd x n = of_int (py_round (x * 10 ^ n)) / 10 ^ n"

section \<open>core/physics.py: derived metrics\<close>

record PhysicsConstants =
  WATER_SPECIFIC_HEAT :: real
  WATER_DENSITY :: real
  BTU_PER_TON_HOUR :: real
  KW_PER_TON :: real
  GPM_FACTOR :: real
  TYPICAL_APPROACH_MIN :: real
  TYPICAL_APPROACH_MAX :: real
  TYPICAL_KW_PER_TON_MIN :: real
  TYPICAL_KW_PER_TON_MAX :: real
  TYPICAL_COP_MIN :: real
  TYPICAL_COP_MAX :: real
  DEFAULT_CHW_FLOW_GPM :: real
  REFRIGERANT_SAT_OFFSET :: real

text \<open>The field defaults of the dataclass \<open>PhysicsConstants\<close>.\<close>

definition PhysicsConstants_default :: PhysicsConstants where
  "PhysicsConstants_default =
     \<lparr> WATER_SPECIFIC_HEAT = 1.0, WATER_DENSITY = 8.33,
       BTU_PER_TON_HOUR = 12000, KW_PER_TON = 3.517, GPM_FACTOR = 500,
       TYPICAL_APPROACH_MIN = 0.5, TYPICAL_APPROACH_MAX = 8.0,
       TYPICAL_KW_PER_TON_MIN = 0.4, TYPICAL_KW_PER_TON_MAX = 1.5,
       TYPICAL_COP_MIN = 3.0, TYPICAL_COP_MAX = 8.0,
       DEFAULT_CHW_FLOW_GPM = 1000.0, REFRIGERANT_SAT_OFFSET = 3.0 \<rparr>"

text \<open>
  \<open>PhysicsCalculator.__init__\<close>: the calculator holds only its constants, so a calculator
  is its constants record; \<open>constants or PhysicsConstants()\<close> takes the defaults for
  \<open>None\<close> (a dataclass instance is always truthy).
\<close>

definition PhysicsCalculator :: "PhysicsConstants option \<Rightarrow> PhysicsConstants" where
  "PhysicsCalculator constants =
     (case constants of None \<Rightarrow> PhysicsConstants_default | Some c \<Rightarrow> c)"

definition calculate_delta_t :: "real \<Rightarrow> real \<Rightarrow> real" where
  "calculate_delta_t chw_return_temp chw_supply_temp = chw_return_temp - chw_supply_temp"

definition calculate_cooling_tons ::
  "PhysicsConstants \<Rightarrow> real \<Rightarrow> real option \<Rightarrow> py_error + real" where
  "calculate_cooling_tons self delta_t chw_flow_gpm =
     (let flow = (case chw_flow_gpm of None \<Rightarrow> DEFAULT_CHW_FLOW_GPM self | Some g \<Rightarrow> g);
          delta_t_fahrenheit = delta_t * 9.0 / 5.0
      in if BTU_PER_TON_HOUR self = 0 then Inl ZeroDivisionError
         else let tons = (flow * delta_t_fahrenheit * GPM_FACTOR self) / BTU_PER_TON_HOUR self
              in Inr (max tons 0.1))"

definition calculate_kw_per_ton ::
  "PhysicsConstants \<Rightarrow> real \<Rightarrow> real \<Rightarrow> real option \<Rightarrow> py_error + real" where
  "calculate_kw_per_ton self power_kw delta_t chw_flow_gpm =
     (if power_kw \<le> 0 then Inr 0.0
      else case calculate_cooling_tons self delta_t chw_flow_gpm of
             Inl e \<Rightarrow> Inl e
           | Inr tons \<Rightarrow>
               if tons < 0.1 then Inr 0.0
               else if tons = 0 then Inl ZeroDivisionError
               else Inr (power_kw / tons))"

definition calculate_approach_temperature ::
  "PhysicsConstants \<Rightarrow> real \<Rightarrow> real option \<Rightarrow> real" where
  "calculate_approach_temperature self cdw_outlet_temp refrigerant_sat_temp =
     (let sat = (case refrigerant_sat_temp of
                   None \<Rightarrow> cdw_outlet_temp + REFRIGERANT_SAT_OFFSET self
                 | Some t \<Rightarrow> t);
          approach = sat - cdw_outlet_temp
      in max approach 0.0)"

definition calculate_cop ::
  "PhysicsConstants \<Rightarrow> real \<Rightarrow> real \<Rightarrow> real option \<Rightarrow> py_error + real" where
  "calculate_cop self delta_t power_kw chw_flow_gpm =
     (if power_kw \<le> 0 then Inr 0.0
      else case calculate_cooling_tons self delta_t chw_flow_gpm of
             Inl e \<Rightarrow> Inl e
           | Inr tons \<Rightarrow>
               (let cooling_kw = tons * KW_PER_TON self
                in Inr (cooling_kw / power_kw)))"

section \<open>core/validators.py: the physics guard\<close>

datatype ValidationSeverity = ERROR | WARNING | INFO

text \<open>
  An f-string that formats floats is kept as its parts, literal text and the floats in its
  holes, because the decimal rendering of a float is outside the model: \<open>Flt x\<close> is the
  hole \<open>{x}\<close>, \<open>Fix x n\<close> the hole \<open>{x:.nf}\<close>.
\<close>

datatype fpart = Lit string | Flt real | Fix real nat

type_synonym fstring = "fpart list"

text \<open>The degree sign of the source's texts, as its code point.\<close>

definition degree_C :: string where
  "degree_C = [CHR 0xB0, CHR ''C'']"

record ValidationIssue =
  severity :: ValidationSeverity
  rule_name :: string
  message :: string
  metric_name :: "string option"
  actual_value :: "real option"
  expected_range :: "fstring option"
  recommendation :: "string option"

record ValidationResult =
  is_valid :: bool
  status :: string
  issues :: "ValidationIssue list"

text \<open>
  A reading is the dictionary passed to \<open>validate\<close>, restricted to its numeric fields: the
  name of every field that carries a number, mapped to that number. A field is absent when
  its key is missing (the API layer drops unset fields before it calls the guard).
\<close>

type_synonym reading = "string \<rightharpoonup> real"

record PhysicsGuard =
  strict_mode :: bool
  typical_ranges :: "(string \<times> real \<times> real) list"

text \<open>\<open>PhysicsGuard.__init__\<close>; the dictionary of typical ranges in its insertion order.\<close>

definition PhysicsGuard_init :: "bool \<Rightarrow> PhysicsGuard" where
  "PhysicsGuard_init strict =
     \<lparr> strict_mode = strict,
       typical_ranges =
         [ (''chw_supply_temp'', 4.0, 12.0),
           (''chw_return_temp'', 8.0, 18.0),
           (''cdw_inlet_temp'', 18.0, 38.0),
           (''cdw_outlet_temp'', 23.0, 45.0),
           (''ambient_temp'', -10.0, 50.0),
           (''vibration_rms'', 0.0, 15.0),
           (''power_kw'', 0.0, 2000.0),
           (''load_percent'', 0.0, 100.0),
           (''kw_per_ton'', 0.35, 1.5),
           (''approach_temp'', 0.5, 10.0),
           (''phase_imbalance'', 0.0, 15.0),
           (''delta_t'', 1.5, 12.0) ] \<rparr>"

definition validate_thermal_directionality :: "reading \<Rightarrow> ValidationIssue list" where
  "validate_thermal_directionality data =
     (let chw_supply = data ''chw_supply_temp'';
          chw_return = data ''chw_return_temp'';
          cdw_inlet = data ''cdw_inlet_temp'';
          cdw_outlet = data ''cdw_outlet_temp''
      in (case (chw_supply, chw_return) of
            (Some s, Some r) \<Rightarrow>
              if r \<le> s then
                [\<lparr> severity = ERROR,
                   rule_name = ''chw_thermal_direction'',
                   message = ''Chilled water return must be warmer than supply (heat is absorbed from building)'',
                   metric_name = Some ''chw_return_temp'',
                   actual_value = Some r,
                   expected_range = Some [Lit ''> '', Flt s, Lit (degree_C @ '' (supply temp)'')],
                   recommendation = Some ''Check CHW temperature sensor wiring - supply and return may be swapped'' \<rparr>]
              else []
          | _ \<Rightarrow> [])
         @
         (case (cdw_inlet, cdw_outlet) of
            (Some i, Some out) \<Rightarrow>
              if out \<le> i then
                [\<lparr> severity = ERROR,
                   rule_name = ''cdw_thermal_direction'',
                   message = ''Condenser water outlet must be warmer than inlet (heat is rejected to cooling tower)'',
                   metric_name = Some ''cdw_outlet_temp'',
                   actual_value = Some out,
                   expected_range = Some [Lit ''> '', Flt i, Lit (degree_C @ '' (inlet temp)'')],
                   recommendation = Some ''Check CDW temperature sensor wiring - inlet and outlet may be swapped'' \<rparr>]
              else []
          | _ \<Rightarrow> []))"

text \<open>One round of the loop over the three phase currents.\<close>

definition validate_phase_current :: "reading \<Rightarrow> string \<Rightarrow> ValidationIssue list" where
  "validate_phase_current data phase =
     (case data phase of
        Some current \<Rightarrow>
          if current < 0 then
            [\<lparr> severity = ERROR,
               rule_name = phase @ ''_non_negative'',
               message = ''Current ('' @ phase @ '') cannot be negative'',
               metric_name = Some phase,
               actual_value = Some current,
               expected_range = Some [Lit ''>= 0 A''],
               recommendation = Some ''Check current transformer wiring and polarity'' \<rparr>]
          else []
      | None \<Rightarrow> [])"

definition validate_absolute_bounds :: "reading \<Rightarrow> ValidationIssue list" where
  "validate_absolute_bounds data =
     (case data ''load_percent'' of
        Some load_percent \<Rightarrow>
          if load_percent < 0 then
            [\<lparr> severity = ERROR,
               rule_name = ''load_percent_negative'',
               message = ''Load percent cannot be negative'',
               metric_name = Some ''load_percent'',
               actual_value = Some load_percent,
               expected_range = Some [Lit ''0 - 100''],
               recommendation = Some ''Check load calculation logic or sensor'' \<rparr>]
          else if 100 < load_percent then
            [\<lparr> severity = ERROR,
               rule_name = ''load_percent_over_100'',
               message = ''Load percent cannot exceed 100%'',
               metric_name = Some ''load_percent'',
               actual_value = Some load_percent,
               expected_range = Some [Lit ''0 - 100''],
               recommendation = Some ''Check load calculation - may need recalibration to actual capacity'' \<rparr>]
          else []
      | None \<Rightarrow> [])
     @
     (case data ''power_kw'' of
        Some power_kw \<Rightarrow>
          if power_kw < 0 then
            [\<lparr> severity = ERROR,
               rule_name = ''power_non_negative'',
               message = ''Power consumption cannot be negative'',
               metric_name = Some ''power_kw'',
               actual_value = Some power_kw,
               expected_range = Some [Lit ''>= 0 kW''],
               recommendation = Some ''Check power meter wiring and CT orientation'' \<rparr>]
          else []
      | None \<Rightarrow> [])
     @
     (case data ''vibration_rms'' of
        Some vibration_rms \<Rightarrow>
          if vibration_rms < 0 then
            [\<lparr> severity = ERROR,
               rule_name = ''vibration_non_negative'',
               message = ''Vibration RMS cannot be negative'',
               metric_name = Some ''vibration_rms'',
               actual_value = Some vibration_rms,
               expected_range = Some [Lit ''>= 0 mm/s''],
               recommendation = Some ''Check vibration sensor signal processing'' \<rparr>]
          else []
      | None \<Rightarrow> [])
     @
     concat (map (validate_phase_current data) [''current_r'', ''current_y'', ''current_b''])
     @
     (case data ''runtime_hours'' of
        Some runtime_hours \<Rightarrow>
          if runtime_hours < 0 then
            [\<lparr> severity = ERROR,
               rule_name = ''runtime_non_negative'',
               message = ''Runtime hours cannot be negative'',
               metric_name = Some ''runtime_hours'',
               actual_value = Some runtime_hours,
               expected_range = Some [Lit ''>= 0 hours''],
               recommendation = Some ''Check runtime counter logic'' \<rparr>]
          else []
      | None \<Rightarrow> [])"

text \<open>\<open>data.get(key, default)\<close> on a reading.\<close>

definition get_default :: "reading \<Rightarrow> string \<Rightarrow> real \<Rightarrow> real" where
  "get_default data key d = (case data key of None \<Rightarrow> d | Some v \<Rightarrow> v)"

definition validate_derived_metrics :: "reading \<Rightarrow> ValidationIssue list" where
  "validate_derived_metrics data =
     (case data ''approach_temp'' of
        Some approach_temp \<Rightarrow>
          if approach_temp < 0 then
            [\<lparr> severity = ERROR,
               rule_name = ''approach_non_negative'',
               message = ''Approach temperature cannot be negative'',
               metric_name = Some ''approach_temp'',
               actual_value = Some approach_temp,
               expected_range = Some [Lit (''>= 0'' @ degree_C)],
               recommendation = Some ''Refrigerant saturation temp calculation may be incorrect, or CDW temp sensor issue'' \<rparr>]
          else []
      | None \<Rightarrow> [])
     @
     (let power_kw = get_default data ''power_kw'' 0
      in case data ''delta_t'' of
           Some delta_t \<Rightarrow>
             if 10 < power_kw then
               (if delta_t \<le> 0 then
                  [\<lparr> severity = ERROR,
                     rule_name = ''delta_t_positive_when_running'',
                     message = ''Delta-T must be positive when chiller is running'',
                     metric_name = Some ''delta_t'',
                     actual_value = Some delta_t,
                     expected_range = Some [Lit (''> 0'' @ degree_C @ '' when running'')],
                     recommendation = Some ''Check temperature sensors or verify chiller is actually producing cooling'' \<rparr>]
                else [])
             else []
         | None \<Rightarrow> [])"

definition validate_operational_consistency :: "reading \<Rightarrow> ValidationIssue list" where
  "validate_operational_consistency data =
     (let power_kw = get_default data ''power_kw'' 0;
          load_percent = data ''load_percent'';
          vibration = get_default data ''vibration_rms'' 0
      in (case load_percent of
            Some lp \<Rightarrow>
              if power_kw = 0 \<and> 10 < lp then
                [\<lparr> severity = WARNING,
                   rule_name = ''power_load_consistency'',
                   message = ''Load percent is high but power consumption is zero'',
                   metric_name = Some ''load_percent'',
                   actual_value = Some lp,
                   expected_range = Some [Lit ''< 10% when power is 0''],
                   recommendation = Some ''Verify power meter is reading correctly, or load calculation has correct inputs'' \<rparr>]
              else []
          | None \<Rightarrow> [])
         @
         (if power_kw = 0 \<and> 5.0 < vibration then
            [\<lparr> severity = WARNING,
               rule_name = ''power_vibration_consistency'',
               message = ''High vibration detected but power is zero (chiller should be off)'',
               metric_name = Some ''vibration_rms'',
               actual_value = Some vibration,
               expected_range = Some [Lit ''< 1.0 mm/s when power is 0''],
               recommendation = Some ''Check if vibration sensor is picking up external sources, or power meter issue'' \<rparr>]
          else []))"

text \<open>One round of the loop over \<open>typical_ranges.items()\<close>.\<close>

definition typical_range_issue ::
  "reading \<Rightarrow> string \<times> real \<times> real \<Rightarrow> ValidationIssue list" where
  "typical_range_issue data item =
     (case item of (name, min_val, max_val) \<Rightarrow>
        (case data name of
           None \<Rightarrow> []
         | Some v \<Rightarrow>
             if v < min_val \<or> max_val < v then
               (let deviation_factor =
                      (if v < min_val then (min_val - v) / max \<bar>min_val\<bar> 1
                       else (v - max_val) / max \<bar>max_val\<bar> 1);
                    sev = (if 0.5 < deviation_factor then WARNING else INFO)
                in [\<lparr> severity = sev,
                      rule_name = name @ ''_typical_range'',
                      message = name @ '' is outside typical operating range'',
                      metric_name = Some name,
                      actual_value = Some (py_round_nd v 2),
                      expected_range = Some [Flt min_val, Lit '' - '', Flt max_val],
                      recommendation = Some (''Verify '' @ name @ '' sensor accuracy and operating conditions'') \<rparr>])
             else []))"

definition validate_typical_ranges :: "PhysicsGuard \<Rightarrow> reading \<Rightarrow> ValidationIssue list" where
  "validate_typical_ranges self data =
     concat (map (typical_range_issue data) (typical_ranges self))
     @
     (case data ''kw_per_ton'' of
        Some kw_per_ton \<Rightarrow>
          if 0 < kw_per_ton then
            (if kw_per_ton < 0.35 then
               [\<lparr> severity = WARNING,
                  rule_name = ''kw_per_ton_too_efficient'',
                  message = ''kW/ton is suspiciously low - efficiency appears too good to be true'',
                  metric_name = Some ''kw_per_ton'',
                  actual_value = Some (py_round_nd kw_per_ton 3),
                  expected_range = Some [Lit ''0.5 - 1.2 kW/ton typical''],
                  recommendation = Some ''Verify power meter accuracy and flow sensor calibration'' \<rparr>]
             else if 1.5 < kw_per_ton then
               [\<lparr> severity = WARNING,
                  rule_name = ''kw_per_ton_very_poor'',
                  message = ''kW/ton is very high - poor efficiency'',
                  metric_name = Some ''kw_per_ton'',
                  actual_value = Some (py_round_nd kw_per_ton 3),
                  expected_range = Some [Lit ''0.5 - 1.2 kW/ton typical''],
                  recommendation = Some ''Investigate chiller performance - possible fouling, refrigerant, or mechanical issues'' \<rparr>]
             else [])
          else []
      | None \<Rightarrow> [])"

text \<open>
  The issues of the five rule families, in the order \<open>validate\<close> extends its list.
\<close>

definition collect_issues :: "PhysicsGuard \<Rightarrow> reading \<Rightarrow> ValidationIssue list" where
  "collect_issues self data =
     validate_thermal_directionality data
     @ validate_absolute_bounds data
     @ validate_derived_metrics data
     @ validate_operational_consistency data
     @ validate_typical_ranges self data"

text \<open>
  \<open>validate\<close> builds \<open>errors\<close> and \<open>warnings\<close> as lists of the same issue objects that
  \<open>issues\<close> holds, and strict mode assigns to \<open>w.severity\<close> through \<open>warnings\<close>. The
  objects are therefore kept in a store, the list \<open>issues\<close> addressed by position (every
  issue is a fresh object, so no two positions alias), and \<open>errors\<close> and \<open>warnings\<close> are
  lists of addresses into it.
\<close>

definition refs_with :: "ValidationSeverity \<Rightarrow> ValidationIssue list \<Rightarrow> nat list" where
  "refs_with s store = filter (\<lambda>a. severity (store ! a) = s) [0..<length store]"

definition set_severity_ERROR :: "ValidationIssue list \<Rightarrow> nat \<Rightarrow> ValidationIssue list" where
  "set_severity_ERROR store a = store[a := (store ! a)\<lparr>severity := ERROR\<rparr>]"

definition validate :: "PhysicsGuard \<Rightarrow> reading \<Rightarrow> ValidationResult" where
  "validate self data =
     (let issues0 = collect_issues self data;
          errors = refs_with ERROR issues0;
          warnings = refs_with WARNING issues0
      in if errors \<noteq> [] then
           \<lparr> is_valid = False, status = ''rejected'', issues = issues0 \<rparr>
         else if warnings \<noteq> [] then
           (if strict_mode self then
              \<lparr> is_valid = False, status = ''rejected'',
                issues = foldl set_severity_ERROR issues0 warnings \<rparr>
            else
              \<lparr> is_valid = True, status = ''accepted_with_warnings'', issues = issues0 \<rparr>)
         else
           \<lparr> is_valid = True, status = ''accepted'', issues = issues0 \<rparr>)"

text \<open>\<open>validate_sensor_data\<close>, the convenience function.\<close>

definition validate_sensor_data :: "reading \<Rightarrow> bool \<Rightarrow> ValidationResult" where
  "validate_sensor_data data strict = validate (PhysicsGuard_init strict) data"

section \<open>core/health_score.py: the health score engine\<close>

datatype HealthCategory = EXCELLENT | GOOD | FAIR | POOR | CRITICAL

record MetricScore =
  score_metric_name :: string
  raw_value :: real
  normalized_score :: real
  weighted_contribution :: real
  weight :: real
  score_status :: string
  score_message :: fstring

record HealthScore =
  overall_score :: real
  category :: HealthCategory
  breakdown :: "MetricScore list"
  primary_concern :: "string option"
  recommendations :: "string list"

text \<open>
  An entry of the thresholds table. The key \<open>direction\<close> of the source's dictionary
  selects between the two shapes, so it is the constructor: \<open>Lower_better excellent good
  fair poor unit description\<close> and \<open>Target_range target excellent_band good_band fair_band
  poor_band unit description\<close>.
\<close>

datatype threshold_entry =
    Lower_better real real real real string string
  | Target_range real real real real real string string

type_synonym metrics = "string \<rightharpoonup> real"

record HealthScoreEngine =
  weights :: "(string \<times> real) list"
  thresholds :: "string \<rightharpoonup> threshold_entry"
  recommendations_db :: "string \<rightharpoonup> (string \<rightharpoonup> string list)"

definition default_weights :: "(string \<times> real) list" where
  "default_weights =
     [ (''vibration_rms'', 0.35),
       (''approach_temp'', 0.25),
       (''phase_imbalance'', 0.20),
       (''kw_per_ton'', 0.15),
       (''delta_t'', 0.05) ]"

text \<open>
  The unit of the two temperature entries as the source file stores it: the three
  characters U+00C2, U+00B0 and \<open>C\<close>.
\<close>

definition unit_degree_C :: string where
  "unit_degree_C = [CHR 0xC2, CHR 0xB0, CHR ''C'']"

definition default_thresholds :: "string \<rightharpoonup> threshold_entry" where
  "default_thresholds =
     map_of
       [ (''vibration_rms'',
            Lower_better 2.0 4.0 7.0 11.0 ''mm/s'' ''Mechanical vibration level''),
         (''approach_temp'',
            Lower_better 2.0 3.0 4.5 6.0 unit_degree_C ''Condenser heat transfer efficiency''),
         (''phase_imbalance'',
            Lower_better 1.0 2.0 3.5 5.0 ''%'' ''Electrical supply balance''),
         (''kw_per_ton'',
            Lower_better 0.55 0.70 0.85 1.0 ''kW/ton'' ''Energy efficiency''),
         (''delta_t'',
            Target_range 5.5 1.0 2.0 3.5 5.0 unit_degree_C
              ''Chilled water temperature differential'') ]"

text \<open>
  \<open>_init_recommendations\<close>. The first advice of every \<open>critical\<close> list begins with a warning
  pictograph in the source; it is outside the 8-bit characters and is left out, the
  wording is otherwise the source's.
\<close>

definition init_recommendations :: "string \<rightharpoonup> (string \<rightharpoonup> string list)" where
  "init_recommendations =
     map_of
       [ (''vibration_rms'', map_of
           [ (''fair'',
               [ ''Schedule vibration analysis within 2 weeks'',
                 ''Check bearing lubrication levels'',
                 ''Inspect visible components for looseness'' ]),
             (''poor'',
               [ ''Schedule vibration analysis within 1 week'',
                 ''Check bearing condition - listen for unusual sounds'',
                 ''Verify coupling alignment'',
                 ''Review maintenance history for recent changes'' ]),
             (''critical'',
               [ ''URGENT: Reduce load immediately'',
                 ''Schedule emergency inspection within 24-48 hours'',
                 ''Prepare for potential bearing replacement'',
                 ''Check for loose mounting bolts or foundation issues'',
                 ''Document vibration readings for trending'' ]) ]),
         (''approach_temp'', map_of
           [ (''fair'',
               [ ''Schedule condenser inspection within 1 month'',
                 ''Check condenser water flow rate'',
                 ''Verify cooling tower performance'' ]),
             (''poor'',
               [ ''Schedule condenser tube cleaning within 2 weeks'',
                 ''Check for scaling or biological growth'',
                 ''Verify water treatment program effectiveness'',
                 ''Check refrigerant charge'' ]),
             (''critical'',
               [ ''URGENT: Condenser severely fouled'',
                 ''Schedule immediate tube cleaning'',
                 ''Check for non-condensables (air) in system'',
                 ''Verify refrigerant charge and purity'',
                 ''Estimated energy waste: 15-25%'' ]) ]),
         (''phase_imbalance'', map_of
           [ (''fair'',
               [ ''Check utility power quality'',
                 ''Inspect main electrical connections'',
                 ''Verify power factor correction equipment'' ]),
             (''poor'',
               [ ''Schedule electrical inspection within 1 week'',
                 ''Check for loose terminal connections'',
                 ''Verify all three phases at motor terminals'',
                 ''Check for single-phasing protection'' ]),
             (''critical'',
               [ ''URGENT: Motor damage risk - reduce load'',
                 ''Immediate electrical inspection required'',
                 ''Check for single-phasing condition'',
                 ''Verify utility power quality'',
                 ''Motor life may be reduced by 50%+ at this imbalance'' ]) ]),
         (''kw_per_ton'', map_of
           [ (''fair'',
               [ ''Compare to baseline/design efficiency'',
                 ''Check operating conditions vs design'',
                 ''Review control sequences'' ]),
             (''poor'',
               [ ''Full efficiency audit recommended'',
                 ''Check refrigerant charge level'',
                 ''Verify all heat exchangers are clean'',
                 ''Review control system operation'' ]),
             (''critical'',
               [ ''Major efficiency degradation'',
                 ''Full diagnostic inspection required'',
                 ''Check compressor condition'',
                 ''Verify refrigerant charge and oil level'',
                 ''Estimated excess energy cost: significant'' ]) ]),
         (''delta_t'', map_of
           [ (''fair'',
               [ ''Check chilled water flow rate'',
                 ''Verify control valve operation'',
                 ''Review building load distribution'' ]),
             (''poor'',
               [ ''Check pump operation and speed'',
                 ''Verify no air in chilled water system'',
                 ''Check for bypass or three-way valve issues'',
                 ''Review chilled water reset schedule'' ]),
             (''critical'',
               [ ''System balance issue'',
                 ''Check all pumps for proper operation'',
                 ''Verify no major leaks or bypasses'',
                 ''Review entire chilled water distribution'' ]) ]) ]"

text \<open>
  \<open>HealthScoreEngine.__init__\<close>: \<open>weights or {...}\<close> takes the defaults for \<open>None\<close> and for
  an empty dictionary. A weights dictionary is the list of its items in insertion order.
\<close>

definition HealthScoreEngine_init :: "(string \<times> real) list option \<Rightarrow> HealthScoreEngine" where
  "HealthScoreEngine_init ws =
     \<lparr> weights = (case ws of None \<Rightarrow> default_weights
                            | Some l \<Rightarrow> if l = [] then default_weights else l),
       thresholds = default_thresholds,
       recommendations_db = init_recommendations \<rparr>"

text \<open>
  The messages of the two scoring functions begin with a pictograph in the source, left
  out here for the same reason; the rest of each f-string is kept part by part.
\<close>

definition score_lower_better ::
  "real \<Rightarrow> real \<Rightarrow> real \<Rightarrow> real \<Rightarrow> real \<Rightarrow> string \<Rightarrow> string \<Rightarrow> real \<times> string \<times> fstring" where
  "score_lower_better v excellent good fair poor unit description =
     (let (score, st, msg) =
        (if v \<le> excellent then
           ((if 0 < excellent then 95.0 + 5.0 * (1.0 - v / excellent) else 100.0),
            ''excellent'',
            [Lit ''Excellent '', Lit description, Lit '': '', Fix v 2, Lit '' '', Lit unit])
         else if v \<le> good then
           (let progress = (v - excellent) / (good - excellent)
            in (90.0 - 15.0 * progress,
                ''good'',
                [Lit ''Good '', Lit description, Lit '': '', Fix v 2, Lit '' '', Lit unit]))
         else if v \<le> fair then
           (let progress = (v - good) / (fair - good)
            in (75.0 - 20.0 * progress,
                ''fair'',
                [Lit ''Fair '', Lit description, Lit '': '', Fix v 2, Lit '' '', Lit unit,
                 Lit '' - Monitor closely'']))
         else if v \<le> poor then
           (let progress = (v - fair) / (poor - fair)
            in (55.0 - 25.0 * progress,
                ''poor'',
                [Lit ''Poor '', Lit description, Lit '': '', Fix v 2, Lit '' '', Lit unit,
                 Lit '' - Action recommended'']))
         else
           (let overage = (if 0 < poor then (v - poor) / poor else 1.0)
            in (max 0.0 (30.0 - 30.0 * min overage 1.0),
                ''critical'',
                [Lit ''Critical '', Lit description, Lit '': '', Fix v 2, Lit '' '', Lit unit,
                 Lit '' - Immediate action required''])))
      in (min 100.0 (max 0.0 score), st, msg))"

text \<open>
  In \<open>_score_lower_better\<close> every divisor is positive on the branch that divides by it.
  \<open>_score_target_range\<close> divides by \<open>excellent_band\<close> and by \<open>poor_band\<close> without a
  test, so a zero band raises there.
\<close>

definition score_target_range ::
  "real \<Rightarrow> real \<Rightarrow> real \<Rightarrow> real \<Rightarrow> real \<Rightarrow> real \<Rightarrow> string \<Rightarrow> string
     \<Rightarrow> py_error + real \<times> string \<times> fstring" where
  "score_target_range v target excellent_band good_band fair_band poor_band unit description =
     (let deviation = \<bar>v - target\<bar>
      in if deviation \<le> excellent_band then
           (if excellent_band = 0 then Inl ZeroDivisionError
            else Inr (min 100.0 (max 0.0 (95.0 + 5.0 * (1.0 - deviation / excellent_band))),
                      ''excellent'',
                      [Lit ''Excellent '', Lit description, Lit '': '', Fix v 1, Lit '' '',
                       Lit unit, Lit '' (target: '', Flt target, Lit '')'']))
         else if deviation \<le> good_band then
           (let progress = (deviation - excellent_band) / (good_band - excellent_band)
            in Inr (min 100.0 (max 0.0 (90.0 - 15.0 * progress)),
                    ''good'',
                    [Lit ''Good '', Lit description, Lit '': '', Fix v 1, Lit '' '', Lit unit]))
         else if deviation \<le> fair_band then
           (let progress = (deviation - good_band) / (fair_band - good_band)
            in Inr (min 100.0 (max 0.0 (75.0 - 20.0 * progress)),
                    ''fair'',
                    [Lit ''Fair '', Lit description, Lit '': '', Fix v 1, Lit '' '', Lit unit,
                     Lit '' - Outside optimal range'']))
         else if deviation \<le> poor_band then
           (let progress = (deviation - fair_band) / (poor_band - fair_band)
            in Inr (min 100.0 (max 0.0 (55.0 - 25.0 * progress)),
                    ''poor'',
                    [Lit ''Poor '', Lit description, Lit '': '', Fix v 1, Lit '' '', Lit unit,
                     Lit '' - Investigate'']))
         else
           (if poor_band = 0 then Inl ZeroDivisionError
            else let overage = (deviation - poor_band) / poor_band
                 in Inr (min 100.0 (max 0.0 (max 0.0 (30.0 - 30.0 * min overage 1.0))),
                         ''critical'',
                         [Lit ''Critical '', Lit description, Lit '': '', Fix v 1, Lit '' '',
                          Lit unit, Lit '' - System issue''])))"

definition score_metric ::
  "HealthScoreEngine \<Rightarrow> string \<Rightarrow> real \<Rightarrow> py_error + real \<times> string \<times> fstring" where
  "score_metric self name v =
     (case thresholds self name of
        None \<Rightarrow> Inr (50.0, ''unknown'', [Lit ''No thresholds defined for '', Lit name])
      | Some (Lower_better excellent good fair poor unit description) \<Rightarrow>
          Inr (score_lower_better v excellent good fair poor unit description)
      | Some (Target_range target eb gb fb pb unit description) \<Rightarrow>
          score_target_range v target eb gb fb pb unit description)"

definition get_category :: "real \<Rightarrow> HealthCategory" where
  "get_category score =
     (if 90 \<le> score then EXCELLENT
      else if 75 \<le> score then GOOD
      else if 55 \<le> score then FAIR
      else if 30 \<le> score then POOR
      else CRITICAL)"

definition get_recommendations :: "HealthScoreEngine \<Rightarrow> string \<Rightarrow> string \<Rightarrow> string list" where
  "get_recommendations self name st =
     (let metric_recs = (case recommendations_db self name of None \<Rightarrow> Map.empty | Some r \<Rightarrow> r)
      in case metric_recs st of
           None \<Rightarrow> [''Monitor and investigate as needed'']
         | Some l \<Rightarrow> l)"

text \<open>
  The loop of \<open>calculate\<close> over \<open>self.weights.items()\<close>, with its three accumulators
  \<open>breakdown\<close>, \<open>weighted_sum\<close> and \<open>total_weight\<close>.
\<close>

fun score_metrics ::
  "HealthScoreEngine \<Rightarrow> metrics \<Rightarrow> (string \<times> real) list \<Rightarrow> MetricScore list \<times> real \<times> real
     \<Rightarrow> py_error + MetricScore list \<times> real \<times> real" where
  "score_metrics self ms [] acc = Inr acc"
| "score_metrics self ms ((name, w) # rest) (bd, weighted_sum, total_weight) =
     (case ms name of
        None \<Rightarrow> score_metrics self ms rest (bd, weighted_sum, total_weight)
      | Some v \<Rightarrow>
          (case score_metric self name v of
             Inl e \<Rightarrow> Inl e
           | Inr (score, st, msg) \<Rightarrow>
               (let contribution = score * w
                in score_metrics self ms rest
                     (bd @ [\<lparr> score_metric_name = name,
                               raw_value = v,
                               normalized_score = score,
                               weighted_contribution = contribution,
                               weight = w,
                               score_status = st,
                               score_message = msg \<rparr>],
                      weighted_sum + contribution,
                      total_weight + w))))"

text \<open>
  \<open>calculate\<close>. \<open>sorted\<close> is stable, as \<open>sort_key\<close> is; \<open>breakdown_sorted[0]\<close> is read only
  when the breakdown is not empty.
\<close>

definition calculate :: "HealthScoreEngine \<Rightarrow> metrics \<Rightarrow> py_error + HealthScore" where
  "calculate self ms =
     (case score_metrics self ms (weights self) ([], 0.0, 0.0) of
        Inl e \<Rightarrow> Inl e
      | Inr (bd, weighted_sum, total_weight) \<Rightarrow>
          (let overall = (if 0 < total_weight then weighted_sum / total_weight else 50.0);
               cat = get_category overall;
               breakdown_sorted = sort_key normalized_score bd;
               (concern, recs) =
                 (case breakdown_sorted of
                    [] \<Rightarrow> (None, [])
                  | worst # _ \<Rightarrow>
                      if normalized_score worst < 70 then
                        (Some (score_metric_name worst),
                         get_recommendations self (score_metric_name worst) (score_status worst))
                      else (None, []))
           in Inr \<lparr> overall_score = overall,
                    category = cat,
                    breakdown = breakdown_sorted,
                    primary_concern = concern,
                    recommendations = recs \<rparr>))"

text \<open>\<open>calculate_health_score\<close>, the convenience function.\<close>

definition calculate_health_score ::
  "metrics \<Rightarrow> (string \<times> real) list option \<Rightarrow> py_error + HealthScore" where
  "calculate_health_score ms ws = calculate (HealthScoreEngine_init ws) ms"

section \<open>engine/failure_scenarios.py: failure scenarios\<close>

datatype FailureType =
    HEALTHY | TUBE_FOULING | BEARING_WEAR | REFRIGERANT_LEAK
  | ELECTRICAL_ISSUE | LOW_LOAD_INEFFICIENCY | POST_MAINTENANCE_MISALIGNMENT

text \<open>A modifier is a function \<open>(base_value, progress, day) -> modified_value\<close>.\<close>

type_synonym modifier = "real \<Rightarrow> real \<Rightarrow> int \<Rightarrow> real"

text \<open>
  The dataclass \<open>FailureScenario\<close>. Its fields \<open>name\<close> and \<open>description\<close> carry the prefix
  \<open>scenario_\<close> here; the narrative \<open>story\<close>, a display text that no operation reads, is
  not modelled.
\<close>

record FailureScenario =
  scenario_name :: string
  failure_type :: FailureType
  scenario_description :: string
  duration_days :: int
  modifiers :: "string \<rightharpoonup> modifier"

definition apply_modifier :: "FailureScenario \<Rightarrow> string \<Rightarrow> real \<Rightarrow> real \<Rightarrow> int \<Rightarrow> real" where
  "apply_modifier self metric base_value progress day =
     (case modifiers self metric of
        Some f \<Rightarrow> f base_value progress day
      | None \<Rightarrow> base_value)"

text \<open>\<open>ScenarioLibrary.healthy_operation\<close>: no modifiers.\<close>

definition healthy_operation :: "int \<Rightarrow> FailureScenario" where
  "healthy_operation days =
     \<lparr> scenario_name = ''Healthy Operation'',
       failure_type = HEALTHY,
       scenario_description = ''Normal chiller operation with stable performance metrics'',
       duration_days = days,
       modifiers = Map.empty \<rparr>"

text \<open>
  \<open>ScenarioLibrary.tube_fouling\<close> and its four modifiers. \<open>progress ** 1.3\<close> is the real
  power; it is taken only of a progress that is not negative.
\<close>

definition approach_modifier :: modifier where
  "approach_modifier base progress day =
     (let increase = 4.0 * (progress powr 1.3);
          daily_noise = 0.2 * sin (real_of_int day * 0.5)
      in base + increase + daily_noise)"

definition kw_per_ton_modifier :: modifier where
  "kw_per_ton_modifier base progress day = (let increase = 0.15 * progress in base + increase)"

definition cdw_outlet_modifier :: modifier where
  "cdw_outlet_modifier base progress day = (let increase = 2.5 * progress in base + increase)"

definition power_modifier :: modifier where
  "power_modifier base progress day =
     (let increase_factor = 1.0 + (0.12 * progress) in base * increase_factor)"

definition tube_fouling :: "int \<Rightarrow> FailureScenario" where
  "tube_fouling days =
     \<lparr> scenario_name = ''Condenser Tube Fouling'',
       failure_type = TUBE_FOULING,
       scenario_description =
         ''Gradual buildup of scale, biofilm, and debris in condenser tubes reducing heat transfer'',
       duration_days = days,
       modifiers =
         map_of
           [ (''approach_temp'', approach_modifier),
             (''kw_per_ton'', kw_per_ton_modifier),
             (''cdw_outlet_temp'', cdw_outlet_modifier),
             (''power_kw'', power_modifier) ] \<rparr>"

section \<open>engine/generator.py: the data generator\<close>

record ChillerBaseline =
  chw_supply_temp :: real
  chw_return_temp :: real
  cdw_inlet_temp :: real
  cdw_outlet_temp :: real
  ambient_temp :: real
  vibration_rms :: real
  vibration_freq :: real
  current_r :: real
  current_y :: real
  current_b :: real
  power_kw :: real
  load_percent :: real
  chw_flow_gpm :: real
  runtime_hours :: real
  start_stop_cycles :: int

definition ChillerBaseline_default :: ChillerBaseline where
  "ChillerBaseline_default =
     \<lparr> chw_supply_temp = 6.7, chw_return_temp = 12.2, cdw_inlet_temp = 29.4,
       cdw_outlet_temp = 35.0, ambient_temp = 25.0,
       vibration_rms = 2.0, vibration_freq = 60.0,
       current_r = 200.0, current_y = 200.0, current_b = 200.0, power_kw = 280.0,
       load_percent = 80.0, chw_flow_gpm = 1000.0, runtime_hours = 15000.0,
       start_stop_cycles = 2 \<rparr>"

text \<open>
  The values of a generated reading: Python ints, floats and strings. A reading is a
  dictionary, kept as the list of its items in insertion order.
\<close>

datatype pyval = PInt int | PFloat real | PStr string

type_synonym sensor_data = "(string \<times> pyval) list"

text \<open>\<open>data[key] = value\<close>: an existing key keeps its place, a new one goes to the end.\<close>

fun dict_set :: "sensor_data \<Rightarrow> string \<Rightarrow> pyval \<Rightarrow> sensor_data" where
  "dict_set [] key v = [(key, v)]"
| "dict_set ((k, x) # rest) key v =
     (if k = key then (k, v) # rest else (k, x) # dict_set rest key v)"

record ChillerDataGenerator =
  asset_id :: string
  baseline :: ChillerBaseline
  scenario :: "FailureScenario option"
  scenario_start_day :: int

text \<open>
  \<open>ChillerDataGenerator.__init__\<close>. Seeding the global random generator has no counterpart
  here: the random draws enter the model through the base reading (see below).
\<close>

definition ChillerDataGenerator_init :: "string \<Rightarrow> ChillerBaseline option \<Rightarrow> ChillerDataGenerator" where
  "ChillerDataGenerator_init aid b =
     \<lparr> asset_id = aid,
       baseline = (case b of None \<Rightarrow> ChillerBaseline_default | Some x \<Rightarrow> x),
       scenario = None,
       scenario_start_day = 0 \<rparr>"

definition set_scenario :: "ChillerDataGenerator \<Rightarrow> FailureScenario \<Rightarrow> int \<Rightarrow> ChillerDataGenerator" where
  "set_scenario self sc start_day = self\<lparr> scenario := Some sc, scenario_start_day := start_day \<rparr>"

definition clear_scenario :: "ChillerDataGenerator \<Rightarrow> ChillerDataGenerator" where
  "clear_scenario self = self\<lparr> scenario := None, scenario_start_day := 0 \<rparr>"

text \<open>
  One round of the loop of \<open>_apply_scenario\<close> over the keys of \<open>data\<close>: the entry written
  to \<open>modified\<close> for one item of \<open>data\<close>.
\<close>

definition modify_item :: "FailureScenario \<Rightarrow> real \<Rightarrow> int \<Rightarrow> string \<times> pyval \<Rightarrow> string \<times> pyval" where
  "modify_item sc progress scenario_day item =
     (case item of (metric, original_value) \<Rightarrow>
        (case modifiers sc metric of
           None \<Rightarrow> (metric, original_value)
         | Some _ \<Rightarrow>
             (case original_value of
                PInt i \<Rightarrow>
                  (metric, PInt (py_round (apply_modifier sc metric (real_of_int i) progress scenario_day)))
              | PFloat x \<Rightarrow>
                  (metric, PFloat (py_round_nd (apply_modifier sc metric x progress scenario_day) 2))
              | PStr t \<Rightarrow> (metric, original_value))))"

definition apply_scenario :: "ChillerDataGenerator \<Rightarrow> sensor_data \<Rightarrow> real \<Rightarrow> int \<Rightarrow> sensor_data" where
  "apply_scenario self data progress scenario_day =
     (case scenario self of
        None \<Rightarrow> data
      | Some sc \<Rightarrow> map (modify_item sc progress scenario_day) data)"

text \<open>
  \<open>generate_reading\<close>. The load factor and the base values are drawn from the global random
  generator; \<open>base\<close> stands for the dictionary that \<open>_generate_base_values\<close> returned for
  this reading, and \<open>time\<close> for \<open>timestamp.isoformat()\<close>.
\<close>

definition generate_reading ::
  "ChillerDataGenerator \<Rightarrow> sensor_data \<Rightarrow> string \<Rightarrow> int \<Rightarrow> sensor_data" where
  "generate_reading self base time day_number =
     (let data =
        (case scenario self of
           None \<Rightarrow> base
         | Some sc \<Rightarrow>
             if scenario_start_day self \<le> day_number then
               (let scenario_day = day_number - scenario_start_day self
                in if scenario_day < duration_days sc then
                     (let progress = real_of_int scenario_day / real_of_int (duration_days sc)
                      in apply_scenario self base progress scenario_day)
                   else base)
             else base);
          data = dict_set data ''time'' (PStr time);
          data = dict_set data ''asset_id'' (PStr (asset_id self));
          data = dict_set data ''operating_mode'' (PStr ''AUTO'');
          data = dict_set data ''alarm_status'' (PInt 0)
      in data)"

text \<open>
  What the specification says an affected value becomes, and what the code stores: the
  modifier's value rounded to two decimals for a float, to the nearest integer for an int.
\<close>

definition stored_value :: "modifier \<Rightarrow> pyval \<Rightarrow> real \<Rightarrow> int \<Rightarrow> pyval" where
  "stored_value f original progress scenario_day =
     (case original of
        PInt i \<Rightarrow> PInt (py_round (f (real_of_int i) progress scenario_day))
      | PFloat x \<Rightarrow> PFloat (py_round_nd (f x progress scenario_day) 2)
      | PStr t \<Rightarrow> PStr t)"

text \<open>A base reading at the baseline's design values, and a generator with tube fouling attached at day 0.\<close>

definition base_design :: sensor_data where
  "base_design =
     [ (''chw_supply_temp'', PFloat 6.7), (''chw_return_temp'', PFloat 12.2),
       (''cdw_inlet_temp'', PFloat 29.4), (''cdw_outlet_temp'', PFloat 35.0),
       (''ambient_temp'', PFloat 25.0), (''vibration_rms'', PFloat 2.0),
       (''vibration_freq'', PFloat 60.0), (''runtime_hours'', PFloat 15000.0),
       (''start_stop_cycles'', PInt 2), (''current_r'', PFloat 200.0),
       (''current_y'', PFloat 200.0), (''current_b'', PFloat 200.0),
       (''power_kw'', PFloat 280.0), (''load_percent'', PFloat 80.0),
       (''chw_flow_gpm'', PFloat 1000.0) ]"

definition generator_fouling :: ChillerDataGenerator where
  "generator_fouling = set_scenario (ChillerDataGenerator_init ''CH-001'' None) (tube_fouling 60) 0"

text \<open>
  The metrics actually present, in the words of the specification: the configured metrics
  that the metrics map carries, in configuration order, each with its weight and value.
\<close>

definition present_metrics :: "HealthScoreEngine \<Rightarrow> metrics \<Rightarrow> (string \<times> real \<times> real) list" where
  "present_metrics self ms =
     concat (map (\<lambda>(n, w). case ms n of None \<Rightarrow> [] | Some v \<Rightarrow> [(n, w, v)]) (weights self))"

text \<open>
  What strict mode does to one issue, in the words of the specification: a warning is
  promoted to an error, every other field and every other issue is left as it is.
\<close>

definition promote_warning :: "ValidationIssue \<Rightarrow> ValidationIssue" where
  "promote_warning i = (if severity i = WARNING then i\<lparr>severity := ERROR\<rparr> else i)"

section \<open>Example readings\<close>

text \<open>Both temperature pairs reversed, as with swapped sensor wiring.\<close>

definition reading_swapped :: reading where
  "reading_swapped = [''chw_supply_temp'' \<mapsto> 12.2, ''chw_return_temp'' \<mapsto> 6.7,
                      ''cdw_inlet_temp'' \<mapsto> 35.0, ''cdw_outlet_temp'' \<mapsto> 29.4]"

text \<open>A load above 100 percent reported together with zero power.\<close>

definition reading_overload_no_power :: reading where
  "reading_overload_no_power = [''power_kw'' \<mapsto> 0, ''load_percent'' \<mapsto> 120]"

text \<open>
  The reading of the first example in the docstring of \<open>PhysicsGuard\<close>: a valid
  chilled-water pair, a load of 80 percent and no power measurement. The docstring prints
  the status \<open>accepted\<close> for it.
\<close>

definition reading_docstring :: reading where
  "reading_docstring =
     [''chw_supply_temp'' \<mapsto> 6.7, ''chw_return_temp'' \<mapsto> 12.2, ''load_percent'' \<mapsto> 80]"

text \<open>Zero power with 80 percent load, the reading of the strict-mode tests.\<close>

definition reading_idle_loaded :: reading where
  "reading_idle_loaded = [''power_kw'' \<mapsto> 0, ''load_percent'' \<mapsto> 80]"

text \<open>A supply temperature one degree above its typical range and nothing else.\<close>

definition reading_warm_supply :: reading where
  "reading_warm_supply = [''chw_supply_temp'' \<mapsto> 13]"

section \<open>Example metrics\<close>

text \<open>Two of the five configured metrics, both at their best value.\<close>

definition metrics_two :: metrics where
  "metrics_two = [''vibration_rms'' \<mapsto> 2.0, ''delta_t'' \<mapsto> 5.5]"

text \<open>An approach temperature beyond its poor threshold, all other metrics excellent.\<close>

definition metrics_one_critical :: metrics where
  "metrics_one_critical =
     [''vibration_rms'' \<mapsto> 1.5, ''approach_temp'' \<mapsto> 8.0, ''phase_imbalance'' \<mapsto> 0.5,
      ''kw_per_ton'' \<mapsto> 0.5, ''delta_t'' \<mapsto> 5.5]"

text \<open>An engine with one negative custom weight, and a vibration in the good band.\<close>

definition engine_negative_weight :: HealthScoreEngine where
  "engine_negative_weight = HealthScoreEngine_init (Some [(''vibration_rms'', - 1.0)])"

definition metrics_vibration_3 :: metrics where
  "metrics_vibration_3 = [''vibration_rms'' \<mapsto> 3.0]"

section \<open>Properties of the derived metrics\<close>

lemma cooling_tons_default:
  "calculate_cooling_tons (PhysicsCalculator None) delta_t flow =
     Inr (max (((case flow of None \<Rightarrow> 1000 | Some g \<Rightarrow> g) * (delta_t * 9 / 5) * 500) / 12000) 0.1)"
  by (simp add: calculate_cooling_tons_def PhysicsCalculator_def PhysicsConstants_default_def
      mult.commute split: option.splits)

text \<open>
  Claim C8. With the default constants \<open>calculate_cooling_tons\<close> always returns a value,
  that value is at least 0.1, it is exactly 0.1 for a zero temperature difference whatever
  the flow (given or defaulted), and \<open>calculate_approach_temperature\<close> is never negative,
  for any condenser outlet temperature and any (or no) saturation temperature.
\<close>

theorem floor_invariants:
  "(\<exists>tons. calculate_cooling_tons (PhysicsCalculator None) delta_t flow = Inr tons \<and> 0.1 \<le> tons)
   \<and> calculate_cooling_tons (PhysicsCalculator None) 0 flow = Inr 0.1
   \<and> 0 \<le> calculate_approach_temperature (PhysicsCalculator None) outlet sat"
  by (simp add: cooling_tons_default calculate_approach_temperature_def)

text \<open>
  Claim C7. With the default constants, for a positive power and a cooling capacity of at
  least 0.1 tons, both \<open>calculate_cop\<close> and \<open>calculate_kw_per_ton\<close> return a value and
  the COP is 3.517 divided by the kW per ton (exactly, over the reals).
\<close>

theorem cop_kw_per_ton_duality:
  assumes "0 < kw"
    and "calculate_cooling_tons (PhysicsCalculator None) delta_t flow = Inr tons"
    and "0.1 \<le> tons"
  shows "\<exists>cop kpt.
           calculate_cop (PhysicsCalculator None) delta_t kw flow = Inr cop
         \<and> calculate_kw_per_ton (PhysicsCalculator None) kw delta_t flow = Inr kpt
         \<and> cop = 3.517 / kpt"
proof -
  have pos: "0 < tons" using assms(3) by simp
  have c: "calculate_cop (PhysicsCalculator None) delta_t kw flow
             = Inr (tons * 3.517 / kw)"
    using assms(1,2)
    by (simp add: calculate_cop_def PhysicsCalculator_def PhysicsConstants_default_def)
  have k: "calculate_kw_per_ton (PhysicsCalculator None) kw delta_t flow
             = Inr (kw / tons)"
    using assms pos by (simp add: calculate_kw_per_ton_def)
  have "tons * 3.517 / kw = 3.517 / (kw / tons)"
    using assms(1) pos by (simp add: field_simps)
  with c k show ?thesis by simp
qed

theorem cop_kw_per_ton_duality_witness:
  "(0::real) < 280
   \<and> calculate_cooling_tons (PhysicsCalculator None) 5.5 None = Inr 412.5
   \<and> (0.1::real) \<le> 412.5
   \<and> (\<exists>cop kpt.
          calculate_cop (PhysicsCalculator None) 5.5 280 None = Inr cop
        \<and> calculate_kw_per_ton (PhysicsCalculator None) 280 5.5 None = Inr kpt
        \<and> cop = 3.517 / kpt)"
proof -
  have t: "calculate_cooling_tons (PhysicsCalculator None) 5.5 None = Inr 412.5"
    by (simp add: cooling_tons_default)
  have p: "(0::real) < 280" by simp
  have f: "(0.1::real) \<le> 412.5" by simp
  show ?thesis using cop_kw_per_ton_duality [OF p t f] t by simp
qed

section \<open>Properties of the physics guard\<close>

subsection \<open>References into the issue store\<close>

lemma refs_with_set: "set (refs_with s store) = {a. a < length store \<and> severity (store ! a) = s}"
  by (auto simp: refs_with_def)

lemma refs_with_nonempty:
  "refs_with s store \<noteq> [] \<longleftrightarrow> (\<exists>i\<in>set store. severity i = s)"
proof -
  have "refs_with s store \<noteq> [] \<longleftrightarrow> set (refs_with s store) \<noteq> {}" by simp
  also have "\<dots> \<longleftrightarrow> (\<exists>a < length store. severity (store ! a) = s)"
    by (auto simp: refs_with_set)
  also have "\<dots> \<longleftrightarrow> (\<exists>i\<in>set store. severity i = s)"
    by (metis in_set_conv_nth)
  finally show ?thesis .
qed

lemma set_severity_ERROR_length: "length (set_severity_ERROR store a) = length store"
  by (simp add: set_severity_ERROR_def)

lemma set_severity_ERROR_nth:
  "k < length store \<Longrightarrow>
   set_severity_ERROR store a ! k =
     (if k = a then (store ! k)\<lparr>severity := ERROR\<rparr> else store ! k)"
  by (simp add: set_severity_ERROR_def nth_list_update)

lemma foldl_set_severity_length:
  "length (foldl set_severity_ERROR store as) = length store"
  by (induction as rule: rev_induct) (simp_all add: set_severity_ERROR_length)

lemma foldl_set_severity_nth:
  "k < length store \<Longrightarrow>
   foldl set_severity_ERROR store as ! k =
     (if k \<in> set as then (store ! k)\<lparr>severity := ERROR\<rparr> else store ! k)"
proof (induction as rule: rev_induct)
  case Nil
  then show ?case by simp
next
  case (snoc a as)
  have "k < length (foldl set_severity_ERROR store as)"
    using snoc.prems by (simp add: foldl_set_severity_length)
  then show ?case
    using snoc by (auto simp: set_severity_ERROR_nth)
qed

lemma promote_through_refs:
  "foldl set_severity_ERROR store (refs_with WARNING store) = map promote_warning store"
proof (rule nth_equalityI)
  show "length (foldl set_severity_ERROR store (refs_with WARNING store)) = length (map promote_warning store)"
    by (simp add: foldl_set_severity_length)
next
  fix k assume "k < length (foldl set_severity_ERROR store (refs_with WARNING store))"
  then have k: "k < length store" by (simp add: foldl_set_severity_length)
  then show "foldl set_severity_ERROR store (refs_with WARNING store) ! k = map promote_warning store ! k"
    by (simp add: foldl_set_severity_nth refs_with_set promote_warning_def)
qed

text \<open>
  \<open>validate\<close> without the store: the verdict is decided by the severities found by the rule
  families, and strict mode returns the issues with their warnings promoted.
\<close>

lemma validate_unfold:
  "validate self data =
     (let raw = collect_issues self data
      in if \<exists>i\<in>set raw. severity i = ERROR then
           \<lparr> is_valid = False, status = ''rejected'', issues = raw \<rparr>
         else if \<exists>i\<in>set raw. severity i = WARNING then
           (if strict_mode self then
              \<lparr> is_valid = False, status = ''rejected'', issues = map promote_warning raw \<rparr>
            else \<lparr> is_valid = True, status = ''accepted_with_warnings'', issues = raw \<rparr>)
         else \<lparr> is_valid = True, status = ''accepted'', issues = raw \<rparr>)"
  by (simp add: validate_def Let_def refs_with_nonempty promote_through_refs)

lemmas rule_family_defs =
  collect_issues_def validate_thermal_directionality_def validate_absolute_bounds_def
  validate_derived_metrics_def validate_operational_consistency_def validate_typical_ranges_def
  typical_range_issue_def validate_phase_current_def get_default_def

lemma collect_issues_init: "collect_issues (PhysicsGuard_init a) d = collect_issues (PhysicsGuard_init b) d"
  by (simp add: collect_issues_def validate_typical_ranges_def PhysicsGuard_init_def)

lemma validate_of_error:
  "\<exists>i\<in>set (collect_issues g d). severity i = ERROR \<Longrightarrow>
   validate g d = \<lparr> is_valid = False, status = ''rejected'', issues = collect_issues g d \<rparr>"
  by (simp add: validate_unfold)

lemma severity_promote_warning:
  "severity (promote_warning i) = (if severity i = WARNING then ERROR else severity i)"
  by (simp add: promote_warning_def)

subsection \<open>Thermal directionality\<close>

text \<open>
  Claim C1. For every reading with both chilled-water temperatures present and the return
  not above the supply, \<open>validate\<close> (in either mode) returns a verdict that is not valid,
  has status rejected and holds an error issue named \<open>chw_thermal_direction\<close>; the same
  for the condenser pair, outlet not above inlet, with \<open>cdw_thermal_direction\<close>.
\<close>

theorem thermal_law:
  "(data ''chw_supply_temp'' = Some s \<and> data ''chw_return_temp'' = Some r \<and> r \<le> s \<longrightarrow>
      \<not> is_valid (validate g data) \<and> status (validate g data) = ''rejected'' \<and>
      (\<exists>i\<in>set (issues (validate g data)).
          severity i = ERROR \<and> rule_name i = ''chw_thermal_direction''))
   \<and> (data ''cdw_inlet_temp'' = Some ci \<and> data ''cdw_outlet_temp'' = Some co \<and> co \<le> ci \<longrightarrow>
      \<not> is_valid (validate g data) \<and> status (validate g data) = ''rejected'' \<and>
      (\<exists>i\<in>set (issues (validate g data)).
          severity i = ERROR \<and> rule_name i = ''cdw_thermal_direction''))"
proof (intro conjI impI)
  assume h: "data ''chw_supply_temp'' = Some s \<and> data ''chw_return_temp'' = Some r \<and> r \<le> s"
  then have e: "\<exists>i\<in>set (collect_issues g data). severity i = ERROR \<and> rule_name i = ''chw_thermal_direction''"
    by (simp add: collect_issues_def validate_thermal_directionality_def)
  then have "\<exists>i\<in>set (collect_issues g data). severity i = ERROR" by blast
  then have v: "validate g data = \<lparr> is_valid = False, status = ''rejected'', issues = collect_issues g data \<rparr>"
    by (rule validate_of_error)
  show "\<not> is_valid (validate g data)" by (simp add: v)
  show "status (validate g data) = ''rejected''" by (simp add: v)
  show "\<exists>i\<in>set (issues (validate g data)). severity i = ERROR \<and> rule_name i = ''chw_thermal_direction''"
    using e by (simp add: v)
next
  assume h: "data ''cdw_inlet_temp'' = Some ci \<and> data ''cdw_outlet_temp'' = Some co \<and> co \<le> ci"
  then have e: "\<exists>i\<in>set (collect_issues g data). severity i = ERROR \<and> rule_name i = ''cdw_thermal_direction''"
    by (simp add: collect_issues_def validate_thermal_directionality_def)
  then have "\<exists>i\<in>set (collect_issues g data). severity i = ERROR" by blast
  then have v: "validate g data = \<lparr> is_valid = False, status = ''rejected'', issues = collect_issues g data \<rparr>"
    by (rule validate_of_error)
  show "\<not> is_valid (validate g data)" by (simp add: v)
  show "status (validate g data) = ''rejected''" by (simp add: v)
  show "\<exists>i\<in>set (issues (validate g data)). severity i = ERROR \<and> rule_name i = ''cdw_thermal_direction''"
    using e by (simp add: v)
qed

theorem thermal_law_witness:
  "(reading_swapped ''chw_supply_temp'' = Some 12.2 \<and> reading_swapped ''chw_return_temp'' = Some 6.7
      \<and> (6.7::real) \<le> 12.2)
   \<and> (reading_swapped ''cdw_inlet_temp'' = Some 35.0 \<and> reading_swapped ''cdw_outlet_temp'' = Some 29.4
      \<and> (29.4::real) \<le> 35.0)
   \<and> \<not> is_valid (validate (PhysicsGuard_init False) reading_swapped)
   \<and> status (validate (PhysicsGuard_init False) reading_swapped) = ''rejected''
   \<and> (\<exists>i\<in>set (issues (validate (PhysicsGuard_init False) reading_swapped)).
          severity i = ERROR \<and> rule_name i = ''chw_thermal_direction'')
   \<and> (\<exists>i\<in>set (issues (validate (PhysicsGuard_init False) reading_swapped)).
          severity i = ERROR \<and> rule_name i = ''cdw_thermal_direction'')"
proof -
  have a: "reading_swapped ''chw_supply_temp'' = Some 12.2 \<and> reading_swapped ''chw_return_temp'' = Some 6.7
      \<and> (6.7::real) \<le> 12.2"
    by (simp add: reading_swapped_def)
  have b: "reading_swapped ''cdw_inlet_temp'' = Some 35.0 \<and> reading_swapped ''cdw_outlet_temp'' = Some 29.4
      \<and> (29.4::real) \<le> 35.0"
    by (simp add: reading_swapped_def)
  show ?thesis
    using thermal_law [of reading_swapped "12.2" "6.7" "PhysicsGuard_init False" "35.0" "29.4"] a b
    by blast
qed

subsection \<open>Classification of the verdict\<close>

text \<open>
  Claim C2, as amended. For every reading and either mode: the status is rejected exactly
  when a returned issue is an error; the verdict is valid exactly when it is not rejected;
  the status is accepted-with-warnings exactly when no returned issue is an error and one
  is a warning; it is accepted exactly when no returned issue is an error or a warning.
  Strict mode promotes the warnings to errors when the rule families found no error;
  when they found one, the issues are returned as the rule families produced them.
\<close>

theorem verdict_classification:
  "(status (validate g d) = ''rejected'' \<longleftrightarrow> (\<exists>i\<in>set (issues (validate g d)). severity i = ERROR))
   \<and> (is_valid (validate g d) \<longleftrightarrow> status (validate g d) \<noteq> ''rejected'')
   \<and> (status (validate g d) = ''accepted_with_warnings'' \<longleftrightarrow>
        \<not> (\<exists>i\<in>set (issues (validate g d)). severity i = ERROR)
        \<and> (\<exists>i\<in>set (issues (validate g d)). severity i = WARNING))
   \<and> (status (validate g d) = ''accepted'' \<longleftrightarrow>
        \<not> (\<exists>i\<in>set (issues (validate g d)). severity i = ERROR)
        \<and> \<not> (\<exists>i\<in>set (issues (validate g d)). severity i = WARNING))
   \<and> issues (validate g d) =
        (if strict_mode g \<and> \<not> (\<exists>i\<in>set (collect_issues g d). severity i = ERROR)
         then map promote_warning (collect_issues g d) else collect_issues g d)"
proof (cases "\<exists>i\<in>set (collect_issues g d). severity i = ERROR")
  case True
  then show ?thesis by (simp add: validate_of_error)
next
  case noerr: False
  show ?thesis
  proof (cases "\<exists>i\<in>set (collect_issues g d). severity i = WARNING")
    case warn: True
    show ?thesis
    proof (cases "strict_mode g")
      case True
      have v: "validate g d = \<lparr> is_valid = False, status = ''rejected'',
                 issues = map promote_warning (collect_issues g d) \<rparr>"
        using noerr warn True by (simp add: validate_unfold)
      have "\<exists>i\<in>set (collect_issues g d). severity (promote_warning i) = ERROR"
        using warn by (auto simp: severity_promote_warning)
      then show ?thesis using True noerr by (simp add: v)
    next
      case False
      have v: "validate g d = \<lparr> is_valid = True, status = ''accepted_with_warnings'',
                 issues = collect_issues g d \<rparr>"
        using noerr warn False by (simp add: validate_unfold)
      show ?thesis using False noerr warn by (simp add: v)
    qed
  next
    case nowarn: False
    have v: "validate g d = \<lparr> is_valid = True, status = ''accepted'', issues = collect_issues g d \<rparr>"
      using noerr nowarn by (simp add: validate_unfold)
    have "map promote_warning (collect_issues g d) = collect_issues g d"
      using nowarn by (simp add: map_idI promote_warning_def)
    then show ?thesis using noerr nowarn by (simp add: v)
  qed
qed

lemma collect_overload_no_power:
  "map (\<lambda>i. (severity i, rule_name i)) (collect_issues (PhysicsGuard_init True) reading_overload_no_power) =
     [(ERROR, ''load_percent_over_100''), (WARNING, ''power_load_consistency''),
      (INFO, ''load_percent_typical_range'')]"
  by (simp add: rule_family_defs PhysicsGuard_init_def reading_overload_no_power_def)

text \<open>
  Claim C2 as stated fails: in strict mode not every warning is promoted. A reading with
  an error and a warning is rejected on the error first, and its warning is returned
  with severity warning.
\<close>

theorem strict_mode_warning_beside_error:
  "strict_mode (PhysicsGuard_init True)
   \<and> status (validate (PhysicsGuard_init True) reading_overload_no_power) = ''rejected''
   \<and> map (\<lambda>i. (severity i, rule_name i)) (issues (validate (PhysicsGuard_init True) reading_overload_no_power)) =
     [(ERROR, ''load_percent_over_100''), (WARNING, ''power_load_consistency''),
      (INFO, ''load_percent_typical_range'')]"
proof -
  have "\<exists>i\<in>set (collect_issues (PhysicsGuard_init True) reading_overload_no_power). severity i = ERROR"
    using collect_overload_no_power by (auto simp: map_eq_Cons_conv)
  then have "validate (PhysicsGuard_init True) reading_overload_no_power =
     \<lparr> is_valid = False, status = ''rejected'',
       issues = collect_issues (PhysicsGuard_init True) reading_overload_no_power \<rparr>"
    by (rule validate_of_error)
  moreover have "strict_mode (PhysicsGuard_init True)"
    by (simp add: PhysicsGuard_init_def)
  ultimately show ?thesis by (simp add: collect_overload_no_power)
qed

subsection \<open>Operational consistency\<close>

text \<open>
  What the rule family does: it reads an absent \<open>power_kw\<close> as zero, so the load warning
  is raised exactly when the power is absent or exactly zero and the load is present and
  above 10, the vibration warning exactly when the power is absent or exactly zero and the
  vibration is present and above 5; these are the only issues of the family.
\<close>

lemma operational_consistency_rules:
  "map (\<lambda>i. (severity i, rule_name i)) (validate_operational_consistency data) =
     (if (data ''power_kw'' = None \<or> data ''power_kw'' = Some 0)
         \<and> (\<exists>lp. data ''load_percent'' = Some lp \<and> 10 < lp)
      then [(WARNING, ''power_load_consistency'')] else [])
     @
     (if (data ''power_kw'' = None \<or> data ''power_kw'' = Some 0)
         \<and> (\<exists>v. data ''vibration_rms'' = Some v \<and> 5 < v)
      then [(WARNING, ''power_vibration_consistency'')] else [])"
  by (auto simp: validate_operational_consistency_def get_default_def split: option.splits)

lemma collect_docstring:
  "map (\<lambda>i. (severity i, rule_name i)) (collect_issues (PhysicsGuard_init False) reading_docstring) =
     [(WARNING, ''power_load_consistency'')]"
  by (simp add: rule_family_defs PhysicsGuard_init_def reading_docstring_def)

text \<open>
  Claim C5. The code departs from the claim and from its own documentation: for the
  docstring's example reading, which has no \<open>power_kw\<close> field, the operational-consistency
  rules raise the power-load warning, and \<open>validate\<close> returns the status
  accepted-with-warnings where the docstring prints accepted.
\<close>

theorem absent_power_warning:
  "reading_docstring ''power_kw'' = None
   \<and> map (\<lambda>i. (severity i, rule_name i)) (validate_operational_consistency reading_docstring) =
       [(WARNING, ''power_load_consistency'')]
   \<and> status (validate (PhysicsGuard_init False) reading_docstring) = ''accepted_with_warnings''
   \<and> map (\<lambda>i. (severity i, rule_name i)) (issues (validate (PhysicsGuard_init False) reading_docstring)) =
       [(WARNING, ''power_load_consistency'')]"
proof -
  have "\<not> (\<exists>i\<in>set (collect_issues (PhysicsGuard_init False) reading_docstring). severity i = ERROR)"
    and "\<exists>i\<in>set (collect_issues (PhysicsGuard_init False) reading_docstring). severity i = WARNING"
    using collect_docstring by (auto simp: map_eq_Cons_conv)
  moreover have "\<not> strict_mode (PhysicsGuard_init False)"
    by (simp add: PhysicsGuard_init_def)
  ultimately have "validate (PhysicsGuard_init False) reading_docstring =
      \<lparr> is_valid = True, status = ''accepted_with_warnings'',
        issues = collect_issues (PhysicsGuard_init False) reading_docstring \<rparr>"
    by (simp add: validate_unfold)
  then have verdict:
    "status (validate (PhysicsGuard_init False) reading_docstring) = ''accepted_with_warnings''
     \<and> map (\<lambda>i. (severity i, rule_name i)) (issues (validate (PhysicsGuard_init False) reading_docstring)) =
         [(WARNING, ''power_load_consistency'')]"
    by (simp add: collect_docstring)
  have family:
    "reading_docstring ''power_kw'' = None
     \<and> map (\<lambda>i. (severity i, rule_name i)) (validate_operational_consistency reading_docstring) =
         [(WARNING, ''power_load_consistency'')]"
    by (simp add: reading_docstring_def validate_operational_consistency_def get_default_def)
  from family verdict show ?thesis by simp
qed

subsection \<open>Strict mode\<close>

text \<open>
  Claim C6. A reading that a non-strict guard accepts with warnings is rejected, not
  valid, by a strict guard, with the same issues in the same order: the severities are
  those of the non-strict result with every warning turned into an error, and the rule
  names, messages, metric names, values, expected ranges and recommendations are equal.
\<close>

theorem strict_mode_promotes:
  assumes "status (validate (PhysicsGuard_init False) d) = ''accepted_with_warnings''"
  shows "status (validate (PhysicsGuard_init True) d) = ''rejected''
       \<and> \<not> is_valid (validate (PhysicsGuard_init True) d)
       \<and> map severity (issues (validate (PhysicsGuard_init True) d)) =
           map (\<lambda>i. if severity i = WARNING then ERROR else severity i)
               (issues (validate (PhysicsGuard_init False) d))
       \<and> map rule_name (issues (validate (PhysicsGuard_init True) d)) =
           map rule_name (issues (validate (PhysicsGuard_init False) d))
       \<and> map message (issues (validate (PhysicsGuard_init True) d)) =
           map message (issues (validate (PhysicsGuard_init False) d))
       \<and> map metric_name (issues (validate (PhysicsGuard_init True) d)) =
           map metric_name (issues (validate (PhysicsGuard_init False) d))
       \<and> map actual_value (issues (validate (PhysicsGuard_init True) d)) =
           map actual_value (issues (validate (PhysicsGuard_init False) d))
       \<and> map expected_range (issues (validate (PhysicsGuard_init True) d)) =
           map expected_range (issues (validate (PhysicsGuard_init False) d))
       \<and> map recommendation (issues (validate (PhysicsGuard_init True) d)) =
           map recommendation (issues (validate (PhysicsGuard_init False) d))"
proof -
  let ?raw = "collect_issues (PhysicsGuard_init False) d"
  have raw: "collect_issues (PhysicsGuard_init True) d = ?raw"
    by (rule collect_issues_init)
  have ns: "\<not> strict_mode (PhysicsGuard_init False)" and st: "strict_mode (PhysicsGuard_init True)"
    by (simp_all add: PhysicsGuard_init_def)
  from assms have noerr: "\<not> (\<exists>i\<in>set ?raw. severity i = ERROR)"
    and warn: "\<exists>i\<in>set ?raw. severity i = WARNING"
    by (auto simp: validate_unfold Let_def split: if_splits)
  have n: "validate (PhysicsGuard_init False) d =
      \<lparr> is_valid = True, status = ''accepted_with_warnings'', issues = ?raw \<rparr>"
    using noerr warn ns by (simp add: validate_unfold)
  have s: "validate (PhysicsGuard_init True) d =
      \<lparr> is_valid = False, status = ''rejected'', issues = map promote_warning ?raw \<rparr>"
    using noerr warn st by (simp add: validate_unfold raw)
  show ?thesis
    by (simp add: n s promote_warning_def comp_def)
qed

lemma collect_idle_loaded:
  "map (\<lambda>i. (severity i, rule_name i)) (collect_issues (PhysicsGuard_init False) reading_idle_loaded) =
     [(WARNING, ''power_load_consistency'')]"
  by (simp add: rule_family_defs PhysicsGuard_init_def reading_idle_loaded_def)

lemma status_idle_loaded:
  "status (validate (PhysicsGuard_init False) reading_idle_loaded) = ''accepted_with_warnings''"
proof -
  have "\<not> (\<exists>i\<in>set (collect_issues (PhysicsGuard_init False) reading_idle_loaded). severity i = ERROR)"
    and "\<exists>i\<in>set (collect_issues (PhysicsGuard_init False) reading_idle_loaded). severity i = WARNING"
    using collect_idle_loaded by (auto simp: map_eq_Cons_conv)
  then show ?thesis by (simp add: validate_unfold PhysicsGuard_init_def)
qed

theorem strict_mode_promotes_witness:
  "status (validate (PhysicsGuard_init False) reading_idle_loaded) = ''accepted_with_warnings''
   \<and> status (validate (PhysicsGuard_init True) reading_idle_loaded) = ''rejected''
   \<and> \<not> is_valid (validate (PhysicsGuard_init True) reading_idle_loaded)
   \<and> map rule_name (issues (validate (PhysicsGuard_init True) reading_idle_loaded)) =
           map rule_name (issues (validate (PhysicsGuard_init False) reading_idle_loaded))"
  using strict_mode_promotes [OF status_idle_loaded] status_idle_loaded by simp

subsection \<open>Accepted with issues\<close>

lemma collect_warm_supply:
  "map (\<lambda>i. (severity i, rule_name i)) (collect_issues (PhysicsGuard_init strict) reading_warm_supply) =
     [(INFO, ''chw_supply_temp_typical_range'')]"
  by (simp add: rule_family_defs PhysicsGuard_init_def reading_warm_supply_def)

text \<open>
  Claim C10. The status accepted does not mean an empty issue list: a supply temperature
  of 13 degrees, one twelfth above its typical maximum, is accepted as valid in either
  mode, and the verdict carries exactly one issue, of severity info.
\<close>

theorem accepted_with_info_issue:
  "status (validate (PhysicsGuard_init strict) reading_warm_supply) = ''accepted''
   \<and> is_valid (validate (PhysicsGuard_init strict) reading_warm_supply)
   \<and> map (\<lambda>i. (severity i, rule_name i)) (issues (validate (PhysicsGuard_init strict) reading_warm_supply)) =
       [(INFO, ''chw_supply_temp_typical_range'')]"
proof -
  have "\<not> (\<exists>i\<in>set (collect_issues (PhysicsGuard_init strict) reading_warm_supply). severity i = ERROR)"
    and "\<not> (\<exists>i\<in>set (collect_issues (PhysicsGuard_init strict) reading_warm_supply). severity i = WARNING)"
    using collect_warm_supply [of strict] by (auto simp: map_eq_Cons_conv)
  then have "validate (PhysicsGuard_init strict) reading_warm_supply =
     \<lparr> is_valid = True, status = ''accepted'',
       issues = collect_issues (PhysicsGuard_init strict) reading_warm_supply \<rparr>"
    by (simp add: validate_unfold)
  then show ?thesis by (simp add: collect_warm_supply)
qed

section \<open>Properties of the health score engine\<close>

subsection \<open>Scores of one metric\<close>

lemma default_target_bands:
  "default_thresholds n = Some (Target_range t eb gb fb pb u d) \<Longrightarrow> eb = 1 \<and> pb = 5"
  by (simp add: default_thresholds_def split: if_splits)

lemma score_lower_better_bands:
  assumes "score_lower_better v e g f p u d = (s, st, msg)"
  shows "(st = ''critical'' \<longrightarrow> s \<le> 30) \<and> (st = ''excellent'' \<longrightarrow> 95 \<le> s)"
proof -
  have ex: "v \<le> e \<Longrightarrow> 0 < e \<Longrightarrow> 95 \<le> 95 + 5 * (1 - v / e)"
    by (simp add: field_simps)
  have cr: "min 100 (30 - 30 * min ((v - p) / p) 1) \<le> 30" if "0 < p" and "\<not> v \<le> p"
  proof -
    have "0 \<le> min ((v - p) / p) 1" using that by simp
    then have "30 - 30 * min ((v - p) / p) 1 \<le> 30" by simp
    then show ?thesis by (simp add: min.coboundedI2)
  qed
  show ?thesis
    using assms ex cr
    by (auto simp: score_lower_better_def Let_def split: if_splits)
qed

lemma score_target_range_bands:
  assumes "score_target_range v t eb gb fb pb u d = Inr (s, st, msg)" and "0 < pb"
  shows "(st = ''critical'' \<longrightarrow> s \<le> 30) \<and> (st = ''excellent'' \<longrightarrow> 95 \<le> s)"
proof -
  have ex: "\<bar>v - t\<bar> \<le> eb \<Longrightarrow> eb \<noteq> 0 \<Longrightarrow> 95 \<le> 95 + 5 * (1 - \<bar>v - t\<bar> / eb)"
    by (simp add: field_simps)
  have cr: "min 100 (30 - 30 * min ((\<bar>v - t\<bar> - pb) / pb) 1) \<le> 30" if "\<not> \<bar>v - t\<bar> \<le> pb"
  proof -
    have "0 \<le> min ((\<bar>v - t\<bar> - pb) / pb) 1" using that assms(2) by simp
    then have "30 - 30 * min ((\<bar>v - t\<bar> - pb) / pb) 1 \<le> 30" by simp
    then show ?thesis by (simp add: min.coboundedI2)
  qed
  show ?thesis
    using assms ex cr
    by (auto simp: score_target_range_def Let_def split: if_splits)
qed

lemma score_metric_init_total:
  "\<exists>r. score_metric (HealthScoreEngine_init ws) n v = Inr r"
proof (cases "default_thresholds n")
  case None
  then show ?thesis by (simp add: score_metric_def HealthScoreEngine_init_def)
next
  case (Some th)
  show ?thesis
  proof (cases th)
    case (Lower_better e g f p u d)
    with Some show ?thesis
      by (cases "score_lower_better v e g f p u d")
         (simp add: score_metric_def HealthScoreEngine_init_def)
  next
    case (Target_range t eb gb fb pb u d)
    with Some have "eb = 1 \<and> pb = 5" by (simp add: default_target_bands)
    with Some Target_range show ?thesis
      by (simp add: score_metric_def HealthScoreEngine_init_def score_target_range_def Let_def)
  qed
qed

lemma score_metric_init_bands:
  assumes "score_metric (HealthScoreEngine_init ws) n v = Inr (s, st, msg)"
  shows "(st = ''critical'' \<longrightarrow> s \<le> 30) \<and> (st = ''excellent'' \<longrightarrow> 95 \<le> s)"
proof (cases "default_thresholds n")
  case None
  with assms show ?thesis by (auto simp: score_metric_def HealthScoreEngine_init_def)
next
  case (Some th)
  show ?thesis
  proof (cases th)
    case (Lower_better e g f p u d)
    with Some assms have "score_lower_better v e g f p u d = (s, st, msg)"
      by (simp add: score_metric_def HealthScoreEngine_init_def)
    then show ?thesis by (rule score_lower_better_bands)
  next
    case (Target_range t eb gb fb pb u d)
    with Some have b: "eb = 1 \<and> pb = 5" by (simp add: default_target_bands)
    from Some Target_range assms have r: "score_target_range v t eb gb fb pb u d = Inr (s, st, msg)"
      by (simp add: score_metric_def HealthScoreEngine_init_def)
    have "0 < pb" using b by simp
    with r show ?thesis by (rule score_target_range_bands)
  qed
qed

subsection \<open>Sorting the breakdown\<close>

lemma sum_list_insort_key:
  "sum_list (map g (insort_key f x xs)) = (g x :: real) + sum_list (map g xs)"
  by (induction xs) simp_all

lemma sum_list_sort_key:
  "sum_list (map g (sort_key f xs)) = sum_list (map (g :: 'a \<Rightarrow> real) xs)"
  by (induction xs) (simp_all add: sort_key_def sum_list_insort_key)

lemma hd_sort_key_least:
  assumes "b \<in> set xs"
  shows "f (hd (sort_key f xs)) \<le> f b"
proof -
  have ne: "sort_key f xs \<noteq> []" using assms by (metis empty_iff list.set(1) set_sort)
  then obtain y ys where ys: "sort_key f xs = y # ys" by (cases "sort_key f xs") auto
  have "sorted (map f (y # ys))" using sorted_sort_key [of f xs] ys by simp
  moreover have "b \<in> set (y # ys)" using assms ys by (metis set_sort)
  ultimately show ?thesis using ys by auto
qed

text \<open>The accumulators of the loop: what it appends and what it adds.\<close>

lemma score_metrics_acc:
  assumes "score_metrics self ms ws (bd, s, t) = Inr (bd', s', t')"
  shows "\<exists>new. bd' = bd @ new
           \<and> s' = s + sum_list (map weighted_contribution new)
           \<and> t' = t + sum_list (map weight new)
           \<and> map (\<lambda>b. (score_metric_name b, weight b, raw_value b)) new
               = concat (map (\<lambda>(n, w). case ms n of None \<Rightarrow> [] | Some v \<Rightarrow> [(n, w, v)]) ws)
           \<and> (\<forall>b\<in>set new.
                 weighted_contribution b = normalized_score b * weight b
               \<and> score_metric self (score_metric_name b) (raw_value b)
                   = Inr (normalized_score b, score_status b, score_message b))"
  using assms
proof (induction ws arbitrary: bd s t)
  case Nil
  then show ?case by simp
next
  case (Cons a ws)
  obtain n w where a: "a = (n, w)" by (cases a)
  show ?case
  proof (cases "ms n")
    case None
    with Cons.prems a have "score_metrics self ms ws (bd, s, t) = Inr (bd', s', t')" by simp
    from Cons.IH [OF this] show ?thesis using None a by simp
  next
    case (Some v)
    with Cons.prems a obtain sc st msg where sm: "score_metric self n v = Inr (sc, st, msg)"
      by (cases "score_metric self n v") auto
    let ?e = "\<lparr> score_metric_name = n, raw_value = v, normalized_score = sc,
                weighted_contribution = sc * w, weight = w,
                score_status = st, score_message = msg \<rparr>"
    from Cons.prems a Some sm
    have "score_metrics self ms ws (bd @ [?e], s + sc * w, t + w) = Inr (bd', s', t')"
      by (simp add: Let_def)
    from Cons.IH [OF this] obtain new where new:
      "bd' = (bd @ [?e]) @ new"
      "s' = s + sc * w + sum_list (map weighted_contribution new)"
      "t' = t + w + sum_list (map weight new)"
      "map (\<lambda>b. (score_metric_name b, weight b, raw_value b)) new
               = concat (map (\<lambda>(n, w). case ms n of None \<Rightarrow> [] | Some v \<Rightarrow> [(n, w, v)]) ws)"
      "\<forall>b\<in>set new.
                 weighted_contribution b = normalized_score b * weight b
               \<and> score_metric self (score_metric_name b) (raw_value b)
                   = Inr (normalized_score b, score_status b, score_message b)"
      by blast
    show ?thesis
      by (rule exI [of _ "?e # new"]) (use new a Some sm in simp)
  qed
qed

lemma score_metrics_init_total:
  "\<exists>r. score_metrics (HealthScoreEngine_init wo) ms ws acc = Inr r"
proof (induction ws arbitrary: acc)
  case Nil
  show ?case by (rule exI [of _ acc]) simp
next
  case (Cons a ws)
  obtain n w where a: "a = (n, w)" by (cases a)
  obtain bd s t where acc: "acc = (bd, s, t)" by (metis prod_cases3)
  show ?case
  proof (cases "ms n")
    case None
    then show ?thesis using Cons.IH a acc by simp
  next
    case (Some v)
    obtain sc st msg where "score_metric (HealthScoreEngine_init wo) n v = Inr (sc, st, msg)"
      using score_metric_init_total [of wo n v] by (metis prod_cases3)
    then show ?thesis using Cons.IH a acc Some by (simp add: Let_def)
  qed
qed

subsection \<open>The result of calculate\<close>

lemma calculate_of_loop:
  assumes "score_metrics self ms (weights self) ([], 0, 0) = Inr (bd, s, t)"
  shows "\<exists>hs. calculate self ms = Inr hs
           \<and> breakdown hs = sort_key normalized_score bd
           \<and> overall_score hs = (if 0 < t then s / t else 50)
           \<and> primary_concern hs =
               (case sort_key normalized_score bd of
                  [] \<Rightarrow> None
                | worst # _ \<Rightarrow>
                    if normalized_score worst < 70 then Some (score_metric_name worst) else None)"
  using assms
  by (cases "sort_key normalized_score bd") (simp_all add: calculate_def Let_def)

lemma calculate_init:
  obtains bd hs where
    "calculate (HealthScoreEngine_init wo) ms = Inr hs"
    "map (\<lambda>b. (score_metric_name b, weight b, raw_value b)) bd
       = present_metrics (HealthScoreEngine_init wo) ms"
    "\<forall>b\<in>set bd.
        weighted_contribution b = normalized_score b * weight b
      \<and> score_metric (HealthScoreEngine_init wo) (score_metric_name b) (raw_value b)
          = Inr (normalized_score b, score_status b, score_message b)"
    "breakdown hs = sort_key normalized_score bd"
    "overall_score hs =
       (if 0 < sum_list (map weight bd)
        then sum_list (map weighted_contribution bd) / sum_list (map weight bd) else 50)"
    "primary_concern hs =
       (case sort_key normalized_score bd of
          [] \<Rightarrow> None
        | worst # _ \<Rightarrow>
            if normalized_score worst < 70 then Some (score_metric_name worst) else None)"
proof -
  let ?e = "HealthScoreEngine_init wo"
  obtain r where "score_metrics ?e ms (weights ?e) ([], 0, 0) = Inr r"
    using score_metrics_init_total by blast
  then obtain bd s t where r: "score_metrics ?e ms (weights ?e) ([], 0, 0) = Inr (bd, s, t)"
    by (metis prod_cases3)
  from score_metrics_acc [OF r] have acc:
    "s = sum_list (map weighted_contribution bd)"
    "t = sum_list (map weight bd)"
    "map (\<lambda>b. (score_metric_name b, weight b, raw_value b)) bd = present_metrics ?e ms"
    "\<forall>b\<in>set bd.
        weighted_contribution b = normalized_score b * weight b
      \<and> score_metric ?e (score_metric_name b) (raw_value b)
          = Inr (normalized_score b, score_status b, score_message b)"
    by (auto simp: present_metrics_def)
  from calculate_of_loop [OF r] obtain hs where hs:
    "calculate ?e ms = Inr hs"
    "breakdown hs = sort_key normalized_score bd"
    "overall_score hs = (if 0 < t then s / t else 50)"
    "primary_concern hs =
       (case sort_key normalized_score bd of
          [] \<Rightarrow> None
        | worst # _ \<Rightarrow>
            if normalized_score worst < 70 then Some (score_metric_name worst) else None)"
    by blast
  show ?thesis
    by (rule that [OF hs(1) acc(3) acc(4) hs(2) _ hs(4)]) (simp add: hs(3) acc(1,2))
qed

lemma sum_list_pos_real:
  "xs \<noteq> [] \<Longrightarrow> \<forall>x\<in>set xs. 0 < x \<Longrightarrow> 0 < sum_list (xs :: real list)"
proof (induction xs)
  case Nil
  then show ?case by simp
next
  case (Cons x xs)
  then show ?case by (cases xs) (auto intro: add_pos_pos)
qed

lemma present_metrics_weight:
  "(n, w, v) \<in> set (present_metrics self ms) \<Longrightarrow> (n, w) \<in> set (weights self) \<and> ms n = Some v"
  by (auto simp: present_metrics_def split: option.splits)

text \<open>
  Claim C3, as amended. For an engine built by the constructor (any weights) and every
  metrics map, \<open>calculate\<close> returns a result, never an error. Its breakdown is the sorted
  list of one entry per configured metric present in the map, each with contribution
  score times weight, the score being that of \<open>_score_metric\<close>. Whenever the weights of
  the present metrics have a positive sum, the overall score is the sum of the
  contributions divided by that sum; the sum is positive when all configured weights are
  positive and a configured metric is present. When no configured metric is present the
  overall score is 50 and the breakdown is empty.
\<close>

theorem score_renormalization:
  "\<exists>hs. calculate (HealthScoreEngine_init wo) ms = Inr hs
     \<and> (\<exists>bd. breakdown hs = sort_key normalized_score bd
            \<and> map (\<lambda>b. (score_metric_name b, weight b, raw_value b)) bd
                = present_metrics (HealthScoreEngine_init wo) ms)
     \<and> (\<forall>b\<in>set (breakdown hs).
            weighted_contribution b = normalized_score b * weight b
          \<and> score_metric (HealthScoreEngine_init wo) (score_metric_name b) (raw_value b)
              = Inr (normalized_score b, score_status b, score_message b))
     \<and> (0 < sum_list (map weight (breakdown hs)) \<longrightarrow>
          overall_score hs =
            sum_list (map weighted_contribution (breakdown hs))
            / sum_list (map weight (breakdown hs)))
     \<and> (present_metrics (HealthScoreEngine_init wo) ms = [] \<longrightarrow>
          overall_score hs = 50 \<and> breakdown hs = [])
     \<and> (breakdown hs = [] \<longleftrightarrow> present_metrics (HealthScoreEngine_init wo) ms = [])
     \<and> ((\<forall>(n, w)\<in>set (weights (HealthScoreEngine_init wo)). 0 < w)
          \<and> present_metrics (HealthScoreEngine_init wo) ms \<noteq> [] \<longrightarrow>
          0 < sum_list (map weight (breakdown hs)))"
proof -
  let ?e = "HealthScoreEngine_init wo"
  obtain bd hs where c:
    "calculate ?e ms = Inr hs"
    "map (\<lambda>b. (score_metric_name b, weight b, raw_value b)) bd = present_metrics ?e ms"
    "\<forall>b\<in>set bd.
        weighted_contribution b = normalized_score b * weight b
      \<and> score_metric ?e (score_metric_name b) (raw_value b)
          = Inr (normalized_score b, score_status b, score_message b)"
    "breakdown hs = sort_key normalized_score bd"
    "overall_score hs =
       (if 0 < sum_list (map weight bd)
        then sum_list (map weighted_contribution bd) / sum_list (map weight bd) else 50)"
    by (rule calculate_init [of wo ms])
  have empty: "bd = [] \<longleftrightarrow> present_metrics ?e ms = []"
    using c(2) by (metis map_is_Nil_conv)
  have sorted_empty: "breakdown hs = [] \<longleftrightarrow> bd = []"
    using c(4) by (metis list.set(1) set_empty set_sort)
  have pos: "0 < sum_list (map weight bd)"
    if "bd \<noteq> []" and w: "\<forall>(n, w)\<in>set (weights ?e). 0 < w"
  proof (rule sum_list_pos_real)
    show "map weight bd \<noteq> []" using that by simp
    show "\<forall>x\<in>set (map weight bd). 0 < x"
    proof
      fix x assume "x \<in> set (map weight bd)"
      then obtain b where b: "b \<in> set bd" "x = weight b" by auto
      then have "(score_metric_name b, weight b, raw_value b) \<in> set (present_metrics ?e ms)"
        using c(2) by (metis (mono_tags, lifting) image_eqI list.set_map)
      then have "(score_metric_name b, weight b) \<in> set (weights ?e)"
        by (simp add: present_metrics_weight)
      with w b show "0 < x" by auto
    qed
  qed
  have sums: "sum_list (map weighted_contribution (breakdown hs)) = sum_list (map weighted_contribution bd)"
    "sum_list (map weight (breakdown hs)) = sum_list (map weight bd)"
    by (simp_all add: c(4) sum_list_sort_key)
  have ratio: "0 < sum_list (map weight (breakdown hs)) \<longrightarrow>
          overall_score hs =
            sum_list (map weighted_contribution (breakdown hs))
            / sum_list (map weight (breakdown hs))"
    using c(5) sums by simp
  have neutral: "present_metrics ?e ms = [] \<longrightarrow> overall_score hs = 50 \<and> breakdown hs = []"
  proof
    assume "present_metrics ?e ms = []"
    then have "bd = []" using empty by simp
    then show "overall_score hs = 50 \<and> breakdown hs = []"
      using c(5) sorted_empty by simp
  qed
  have positive: "(\<forall>(n, w)\<in>set (weights ?e). 0 < w) \<and> present_metrics ?e ms \<noteq> [] \<longrightarrow>
          0 < sum_list (map weight (breakdown hs))"
    using pos empty sums by simp
  have entries: "\<forall>b\<in>set (breakdown hs).
            weighted_contribution b = normalized_score b * weight b
          \<and> score_metric ?e (score_metric_name b) (raw_value b)
              = Inr (normalized_score b, score_status b, score_message b)"
    using c(3,4) by simp
  have cover: "\<exists>bd. breakdown hs = sort_key normalized_score bd
            \<and> map (\<lambda>b. (score_metric_name b, weight b, raw_value b)) bd = present_metrics ?e ms"
    using c(2,4) by blast
  have iff: "breakdown hs = [] \<longleftrightarrow> present_metrics ?e ms = []"
    using sorted_empty empty by simp
  show ?thesis
    by (rule exI [of _ hs]) (use c(1) cover entries ratio neutral iff positive in blast)
qed

lemma default_weights_positive:
  "\<forall>(n, w)\<in>set (weights (HealthScoreEngine_init None)). 0 < w"
  by (simp add: HealthScoreEngine_init_def default_weights_def)

lemma present_metrics_two:
  "present_metrics (HealthScoreEngine_init None) metrics_two =
     [(''vibration_rms'', 0.35, 2), (''delta_t'', 0.05, 5.5)]"
  by (simp add: present_metrics_def HealthScoreEngine_init_def default_weights_def metrics_two_def)

lemma present_metrics_empty:
  "present_metrics (HealthScoreEngine_init None) Map.empty = []"
  by (simp add: present_metrics_def HealthScoreEngine_init_def default_weights_def)

theorem score_renormalization_witness:
  "(\<exists>hs. calculate (HealthScoreEngine_init None) metrics_two = Inr hs
      \<and> present_metrics (HealthScoreEngine_init None) metrics_two =
          [(''vibration_rms'', 0.35, 2), (''delta_t'', 0.05, 5.5)]
      \<and> 0 < sum_list (map weight (breakdown hs))
      \<and> overall_score hs =
           sum_list (map weighted_contribution (breakdown hs))
           / sum_list (map weight (breakdown hs)))
   \<and> (\<exists>hs. calculate (HealthScoreEngine_init None) Map.empty = Inr hs
      \<and> overall_score hs = 50 \<and> breakdown hs = [])"
proof
  have ne: "present_metrics (HealthScoreEngine_init None) metrics_two \<noteq> []"
    by (simp add: present_metrics_two)
  show "\<exists>hs. calculate (HealthScoreEngine_init None) metrics_two = Inr hs
      \<and> present_metrics (HealthScoreEngine_init None) metrics_two =
          [(''vibration_rms'', 0.35, 2), (''delta_t'', 0.05, 5.5)]
      \<and> 0 < sum_list (map weight (breakdown hs))
      \<and> overall_score hs =
           sum_list (map weighted_contribution (breakdown hs))
           / sum_list (map weight (breakdown hs))"
    using score_renormalization [of None metrics_two] default_weights_positive ne
      present_metrics_two
    by blast
  show "\<exists>hs. calculate (HealthScoreEngine_init None) Map.empty = Inr hs
      \<and> overall_score hs = 50 \<and> breakdown hs = []"
    using score_renormalization [of None Map.empty] present_metrics_empty
    by blast
qed

text \<open>
  Claim C3 as stated fails. With the single custom weight \<open>-1\<close> for the vibration and a
  vibration of 3.0, the one breakdown entry scores 82.5 with contribution \<open>-82.5\<close>, so
  the sum of the contributions divided by the sum of the weights is 82.5, and \<open>calculate\<close>
  returns the overall score 50.
\<close>

theorem negative_weight_neutral_score:
  "calculate engine_negative_weight metrics_vibration_3 =
     Inr \<lparr> overall_score = 50,
           category = POOR,
           breakdown =
             [\<lparr> score_metric_name = ''vibration_rms'',
                raw_value = 3,
                normalized_score = 82.5,
                weighted_contribution = - 82.5,
                weight = - 1,
                score_status = ''good'',
                score_message =
                  [Lit ''Good '', Lit ''Mechanical vibration level'', Lit '': '', Fix 3 2,
                   Lit '' '', Lit ''mm/s''] \<rparr>],
           primary_concern = None,
           recommendations = [] \<rparr>
   \<and> (- 82.5 :: real) / (- 1) = 82.5
   \<and> (82.5 :: real) \<noteq> 50"
  by (simp add: calculate_def engine_negative_weight_def metrics_vibration_3_def
      HealthScoreEngine_init_def default_thresholds_def score_metric_def
      score_lower_better_def get_category_def Let_def sort_key_def)

text \<open>
  Claim C9. For an engine built by the constructor and every metrics map, \<open>calculate\<close>
  returns a result whose breakdown is the sorted list of one entry per configured metric
  present in the map, each carrying the score and status that \<open>_score_metric\<close> gives its
  value; it is empty exactly when no configured metric is present. The first entry of the
  breakdown has the lowest normalized score of all entries; the primary concern is the
  name of that entry if its score is below 70 and \<open>None\<close> otherwise (also when the
  breakdown is empty). In particular, when one entry has status critical and every other
  entry has status excellent, the primary concern is the name of the critical entry.
\<close>

theorem primary_concern_selection:
  "\<exists>hs. calculate (HealthScoreEngine_init wo) ms = Inr hs
     \<and> (\<exists>bd. breakdown hs = sort_key normalized_score bd
            \<and> map (\<lambda>b. (score_metric_name b, weight b, raw_value b)) bd
                = present_metrics (HealthScoreEngine_init wo) ms)
     \<and> (\<forall>b\<in>set (breakdown hs).
            score_metric (HealthScoreEngine_init wo) (score_metric_name b) (raw_value b)
              = Inr (normalized_score b, score_status b, score_message b))
     \<and> (breakdown hs = [] \<longleftrightarrow> present_metrics (HealthScoreEngine_init wo) ms = [])
     \<and> (\<forall>b\<in>set (breakdown hs).
            normalized_score (hd (breakdown hs)) \<le> normalized_score b)
     \<and> primary_concern hs =
         (if breakdown hs = [] then None
          else if normalized_score (hd (breakdown hs)) < 70
               then Some (score_metric_name (hd (breakdown hs))) else None)
     \<and> (\<forall>c\<in>set (breakdown hs).
            score_status c = ''critical''
            \<and> (\<forall>b\<in>set (breakdown hs). b \<noteq> c \<longrightarrow> score_status b = ''excellent'')
            \<longrightarrow> primary_concern hs = Some (score_metric_name c))"
proof -
  let ?e = "HealthScoreEngine_init wo"
  obtain bd hs where c:
    "calculate ?e ms = Inr hs"
    "map (\<lambda>b. (score_metric_name b, weight b, raw_value b)) bd = present_metrics ?e ms"
    "\<forall>b\<in>set bd.
        weighted_contribution b = normalized_score b * weight b
      \<and> score_metric ?e (score_metric_name b) (raw_value b)
          = Inr (normalized_score b, score_status b, score_message b)"
    "breakdown hs = sort_key normalized_score bd"
    "overall_score hs =
       (if 0 < sum_list (map weight bd)
        then sum_list (map weighted_contribution bd) / sum_list (map weight bd) else 50)"
    "primary_concern hs =
       (case sort_key normalized_score bd of
          [] \<Rightarrow> None
        | worst # _ \<Rightarrow>
            if normalized_score worst < 70 then Some (score_metric_name worst) else None)"
    by (rule calculate_init [of wo ms])
  let ?bs = "breakdown hs"
  have set_bs: "set ?bs = set bd" by (simp add: c(4))
  have empty: "?bs = [] \<longleftrightarrow> present_metrics ?e ms = []"
    using c(2) set_bs by (metis map_is_Nil_conv set_empty)
  have least: "\<forall>b\<in>set ?bs. normalized_score (hd ?bs) \<le> normalized_score b"
    using hd_sort_key_least [of _ bd normalized_score] by (simp add: c(4))
  have concern: "primary_concern hs =
         (if ?bs = [] then None
          else if normalized_score (hd ?bs) < 70
               then Some (score_metric_name (hd ?bs)) else None)"
    using c(6) by (cases "sort_key normalized_score bd") (simp_all add: c(4))
  have bands: "(score_status b = ''critical'' \<longrightarrow> normalized_score b \<le> 30)
             \<and> (score_status b = ''excellent'' \<longrightarrow> 95 \<le> normalized_score b)"
    if "b \<in> set ?bs" for b
  proof -
    from that c(3) set_bs
    have "score_metric ?e (score_metric_name b) (raw_value b)
            = Inr (normalized_score b, score_status b, score_message b)"
      by simp
    then show ?thesis by (rule score_metric_init_bands)
  qed
  have particular: "primary_concern hs = Some (score_metric_name k)"
    if k: "k \<in> set ?bs" "score_status k = ''critical''"
      and others: "\<forall>b\<in>set ?bs. b \<noteq> k \<longrightarrow> score_status b = ''excellent''" for k
  proof -
    have ne: "?bs \<noteq> []" using k(1) by auto
    then have h: "hd ?bs \<in> set ?bs" by simp
    have low: "normalized_score k \<le> 30" using bands [OF k(1)] k(2) by simp
    have "hd ?bs = k"
    proof (rule ccontr)
      assume "hd ?bs \<noteq> k"
      with others h have "score_status (hd ?bs) = ''excellent''" by simp
      with bands [OF h] have "95 \<le> normalized_score (hd ?bs)" by simp
      moreover have "normalized_score (hd ?bs) \<le> normalized_score k" using least k(1) by simp
      ultimately show False using low by simp
    qed
    then show ?thesis using concern ne low by simp
  qed
  have cover: "\<exists>bd. breakdown hs = sort_key normalized_score bd
            \<and> map (\<lambda>b. (score_metric_name b, weight b, raw_value b)) bd = present_metrics ?e ms"
    using c(2,4) by blast
  have entries: "\<forall>b\<in>set ?bs.
            score_metric ?e (score_metric_name b) (raw_value b)
              = Inr (normalized_score b, score_status b, score_message b)"
    using c(3) set_bs by simp
  show ?thesis
    by (rule exI [of _ hs]) (use c(1) cover entries empty least concern particular in blast)
qed

lemma breakdown_one_critical:
  "\<exists>hs. calculate (HealthScoreEngine_init None) metrics_one_critical = Inr hs
     \<and> map (\<lambda>b. (score_metric_name b, score_status b)) (breakdown hs) =
         [(''approach_temp'', ''critical''), (''kw_per_ton'', ''excellent''),
          (''vibration_rms'', ''excellent''), (''phase_imbalance'', ''excellent''),
          (''delta_t'', ''excellent'')]"
  by (simp add: calculate_def HealthScoreEngine_init_def default_weights_def default_thresholds_def
      metrics_one_critical_def score_metric_def score_lower_better_def score_target_range_def
      Let_def sort_key_def)

theorem primary_concern_selection_witness:
  "\<exists>hs. calculate (HealthScoreEngine_init None) metrics_one_critical = Inr hs
     \<and> map (\<lambda>b. (score_metric_name b, score_status b)) (breakdown hs) =
         [(''approach_temp'', ''critical''), (''kw_per_ton'', ''excellent''),
          (''vibration_rms'', ''excellent''), (''phase_imbalance'', ''excellent''),
          (''delta_t'', ''excellent'')]
     \<and> primary_concern hs = Some ''approach_temp''"
proof -
  from breakdown_one_critical obtain hs where both:
    "calculate (HealthScoreEngine_init None) metrics_one_critical = Inr hs
     \<and> map (\<lambda>b. (score_metric_name b, score_status b)) (breakdown hs) =
         [(''approach_temp'', ''critical''), (''kw_per_ton'', ''excellent''),
          (''vibration_rms'', ''excellent''), (''phase_imbalance'', ''excellent''),
          (''delta_t'', ''excellent'')]"
    by (rule exE)
  note hs = conjunct1 [OF both] and m = conjunct2 [OF both]
  from primary_concern_selection [of None metrics_one_critical] hs
  have sel: "\<forall>c\<in>set (breakdown hs).
            score_status c = ''critical''
            \<and> (\<forall>b\<in>set (breakdown hs). b \<noteq> c \<longrightarrow> score_status b = ''excellent'')
            \<longrightarrow> primary_concern hs = Some (score_metric_name c)"
    by auto
  from m obtain b1 b2 b3 b4 b5 where bs: "breakdown hs = [b1, b2, b3, b4, b5]"
    and st: "score_metric_name b1 = ''approach_temp''" "score_status b1 = ''critical''"
      "score_status b2 = ''excellent''" "score_status b3 = ''excellent''"
      "score_status b4 = ''excellent''" "score_status b5 = ''excellent''"
    by (auto simp: map_eq_Cons_conv)
  have "primary_concern hs = Some (score_metric_name b1)"
    using sel bs st by auto
  with hs m st(1) show ?thesis by simp
qed

section \<open>Properties of the generator\<close>

lemma map_of_dict_set:
  "map_of (dict_set d key v) k = (if k = key then Some v else map_of d k)"
  by (induction d key v rule: dict_set.induct) auto

lemma map_of_modify_item:
  "map_of (map (modify_item sc p e) d) k =
     map_option (\<lambda>v. case modifiers sc k of None \<Rightarrow> v | Some f \<Rightarrow> stored_value f v p e) (map_of d k)"
proof (induction d)
  case Nil
  then show ?case by simp
next
  case (Cons a d)
  obtain k' v' where a: "a = (k', v')" by (cases a)
  show ?case
    using Cons a
    by (auto simp: modify_item_def stored_value_def apply_modifier_def
             split: option.splits pyval.splits)
qed

lemma map_of_generate_reading:
  assumes "k \<noteq> ''time''" "k \<noteq> ''asset_id''" "k \<noteq> ''operating_mode''" "k \<noteq> ''alarm_status''"
  shows "map_of (generate_reading g base time d) k =
     (case scenario g of
        None \<Rightarrow> map_of base k
      | Some sc \<Rightarrow>
          if scenario_start_day g \<le> d \<and> d - scenario_start_day g < duration_days sc then
            map_option
              (\<lambda>v. case modifiers sc k of
                      None \<Rightarrow> v
                    | Some f \<Rightarrow>
                        stored_value f v
                          (real_of_int (d - scenario_start_day g) / real_of_int (duration_days sc))
                          (d - scenario_start_day g))
              (map_of base k)
          else map_of base k)"
  using assms
  by (simp add: generate_reading_def Let_def map_of_dict_set apply_scenario_def
      map_of_modify_item del: of_int_diff split: option.splits)

text \<open>
  Claim C4, as amended. With a scenario attached at start day \<open>s\<close>, take a metric of the
  base reading (any key but the four metadata keys written afterwards). On a day \<open>d\<close> of
  the active window, \<open>s \<le> d < s + duration_days\<close>, the progress \<open>(d - s) / duration_days\<close>
  lies in \<open>[0, 1)\<close> and the reading holds, for a metric of the modifier map, the
  modifier's value at the base value, the progress and the day \<open>d - s\<close>, rounded to two
  decimals (to an integer for an int), and the base value for a metric outside the map.
  Before the start day and from day \<open>s + duration_days\<close> on, the reading holds the base
  value.
\<close>

theorem scenario_injection:
  assumes "scenario g = Some sc" and "scenario_start_day g = s"
    and "map_of base k = Some v"
    and "k \<notin> {''time'', ''asset_id'', ''operating_mode'', ''alarm_status''}"
  shows "(s \<le> d \<and> d < s + duration_days sc \<longrightarrow>
            0 \<le> real_of_int (d - s) / real_of_int (duration_days sc)
          \<and> real_of_int (d - s) / real_of_int (duration_days sc) < 1
          \<and> map_of (generate_reading g base time d) k =
              Some (case modifiers sc k of
                      None \<Rightarrow> v
                    | Some f \<Rightarrow>
                        stored_value f v
                          (real_of_int (d - s) / real_of_int (duration_days sc)) (d - s)))
       \<and> (d < s \<or> s + duration_days sc \<le> d \<longrightarrow>
            map_of (generate_reading g base time d) k = Some v)"
proof (intro conjI impI)
  have k: "k \<noteq> ''time''" "k \<noteq> ''asset_id''" "k \<noteq> ''operating_mode''" "k \<noteq> ''alarm_status''"
    using assms(4) by auto
  note r = map_of_generate_reading [OF k, of g base time d]
  have start: "s = scenario_start_day g" using assms(2) by simp
  {
    assume w: "s \<le> d \<and> d < s + duration_days sc"
    then have pos: "0 < duration_days sc" by linarith
    show "0 \<le> real_of_int (d - s) / real_of_int (duration_days sc)"
      using w pos by (simp del: of_int_diff)
    show "real_of_int (d - s) / real_of_int (duration_days sc) < 1"
      using w pos by (simp del: of_int_diff)
    show "map_of (generate_reading g base time d) k =
              Some (case modifiers sc k of
                      None \<Rightarrow> v
                    | Some f \<Rightarrow>
                        stored_value f v
                          (real_of_int (d - s) / real_of_int (duration_days sc)) (d - s))"
      using w assms(1,3) unfolding start by (simp add: r del: of_int_diff)
  }
  {
    assume "d < s \<or> s + duration_days sc \<le> d"
    then show "map_of (generate_reading g base time d) k = Some v"
      using assms(1,3) unfolding start by (auto simp: r)
  }
qed

lemma generator_fouling_fields:
  "scenario generator_fouling = Some (tube_fouling 60)"
  "scenario_start_day generator_fouling = 0"
  by (simp_all add: generator_fouling_def set_scenario_def ChillerDataGenerator_init_def)

lemma tube_fouling_fields:
  "duration_days (tube_fouling 60) = 60"
  "modifiers (tube_fouling 60) ''cdw_outlet_temp'' = Some cdw_outlet_modifier"
  "modifiers (tube_fouling 60) ''chw_supply_temp'' = None"
  by (simp_all add: tube_fouling_def)

lemma base_design_fields:
  "map_of base_design ''cdw_outlet_temp'' = Some (PFloat 35)"
  "map_of base_design ''chw_supply_temp'' = Some (PFloat 6.7)"
  by (simp_all add: base_design_def)

lemma stored_outlet_day_1:
  "stored_value cdw_outlet_modifier (PFloat 35) (1 / 60) 1 = PFloat 35.04"
  by (simp add: stored_value_def cdw_outlet_modifier_def py_round_nd_def py_round_def Let_def)

theorem scenario_injection_witness:
  "map_of (generate_reading generator_fouling base_design ''2024-01-02T00:00:00'' 1)
       ''cdw_outlet_temp'' = Some (PFloat 35.04)
   \<and> map_of (generate_reading generator_fouling base_design ''2024-01-02T00:00:00'' 1)
       ''chw_supply_temp'' = Some (PFloat 6.7)
   \<and> map_of (generate_reading generator_fouling base_design ''2024-03-01T00:00:00'' 60)
       ''cdw_outlet_temp'' = Some (PFloat 35)"
proof -
  have k1: "''cdw_outlet_temp'' \<notin> {''time'', ''asset_id'', ''operating_mode'', ''alarm_status''}"
    and k2: "''chw_supply_temp'' \<notin> {''time'', ''asset_id'', ''operating_mode'', ''alarm_status''}"
    by simp_all
  note a = scenario_injection [OF generator_fouling_fields(1) generator_fouling_fields(2)
      base_design_fields(1) k1, of 1 "''2024-01-02T00:00:00''"]
  note b = scenario_injection [OF generator_fouling_fields(1) generator_fouling_fields(2)
      base_design_fields(2) k2, of 1 "''2024-01-02T00:00:00''"]
  note c = scenario_injection [OF generator_fouling_fields(1) generator_fouling_fields(2)
      base_design_fields(1) k1, of 60 "''2024-03-01T00:00:00''"]
  have "map_of (generate_reading generator_fouling base_design ''2024-01-02T00:00:00'' 1)
       ''cdw_outlet_temp'' = Some (PFloat 35.04)"
    using a by (simp add: tube_fouling_fields stored_outlet_day_1)
  moreover have "map_of (generate_reading generator_fouling base_design ''2024-01-02T00:00:00'' 1)
       ''chw_supply_temp'' = Some (PFloat 6.7)"
    using b by (simp add: tube_fouling_fields)
  moreover have "map_of (generate_reading generator_fouling base_design ''2024-03-01T00:00:00'' 60)
       ''cdw_outlet_temp'' = Some (PFloat 35)"
    using c by (simp add: tube_fouling_fields)
  ultimately show ?thesis by simp
qed

lemma reading_outlet_day_1:
  "map_of (generate_reading generator_fouling base_design t 1) ''cdw_outlet_temp''
     = Some (PFloat 35.04)"
  using stored_outlet_day_1
  by (simp add: map_of_generate_reading generator_fouling_fields tube_fouling_fields
      base_design_fields)

lemma reading_outlet_day_60:
  "map_of (generate_reading generator_fouling base_design t 60) ''cdw_outlet_temp''
     = Some (PFloat 35)"
  by (simp add: map_of_generate_reading generator_fouling_fields tube_fouling_fields
      base_design_fields)

text \<open>
  Claim C4 as stated fails, twice. With tube fouling of 60 days attached at day 0 and a
  condenser outlet of 35.0 in the base reading: on day 60, which is not before the start
  day, the reading still holds 35.0 while the modifier gives 37.5; on day 1 the reading
  holds 35.04, the modifier's value \<open>35 + 1/24\<close> rounded to two decimals.
\<close>

theorem scenario_value_not_modifier:
  "scenario generator_fouling = Some (tube_fouling 60)
   \<and> scenario_start_day generator_fouling = 0
   \<and> modifiers (tube_fouling 60) ''cdw_outlet_temp'' = Some cdw_outlet_modifier
   \<and> map_of base_design ''cdw_outlet_temp'' = Some (PFloat 35)
   \<and> map_of (generate_reading generator_fouling base_design ''2024-03-01T00:00:00'' 60)
        ''cdw_outlet_temp'' = Some (PFloat 35)
   \<and> cdw_outlet_modifier 35 (real_of_int (60 - 0) / real_of_int 60) (60 - 0) = 37.5
   \<and> map_of (generate_reading generator_fouling base_design ''2024-01-02T00:00:00'' 1)
        ''cdw_outlet_temp'' = Some (PFloat 35.04)
   \<and> cdw_outlet_modifier 35 (real_of_int (1 - 0) / real_of_int 60) (1 - 0) = 35 + 1 / 24"
  by (simp add: reading_outlet_day_1 reading_outlet_day_60 generator_fouling_fields
      tube_fouling_fields base_design_fields cdw_outlet_modifier_def)

end
